theory Spec2Isabelle
  imports Main
begin

section \<open>Strings and console text\<close>

text \<open>
  A \<^verbatim>\<open>std::string\<close> is a list of characters. The literal
  \<^verbatim>\<open>" \n\r\t\f\v"\<close> that \<^verbatim>\<open>trimWhiteSpace\<close> hands to the two
  searches holds space, newline, carriage return, tab, form feed and vertical tab.
\<close>

definition whiteSpace :: string where
  "whiteSpace = [CHR '' '', CHR 0x0A, CHR 0x0D, CHR 0x09, CHR 0x0C, CHR 0x0B]"

text \<open>
  \<^verbatim>\<open>std::string::find_first_not_of\<close> and \<^verbatim>\<open>find_last_not_of\<close>: the position of
  the first (last) character that is not one of \<open>cs\<close>; \<open>None\<close> stands for
  \<^verbatim>\<open>std::string::npos\<close>.
\<close>

fun find_first_not_of :: "string \<Rightarrow> string \<Rightarrow> nat option" where
  "find_first_not_of [] cs = None"
| "find_first_not_of (x # xs) cs =
     (if x \<in> set cs then map_option Suc (find_first_not_of xs cs) else Some 0)"

definition find_last_not_of :: "string \<Rightarrow> string \<Rightarrow> nat option" where
  "find_last_not_of s cs =
     (case find_first_not_of (rev s) cs of
        None \<Rightarrow> None
      | Some i \<Rightarrow> Some (length s - 1 - i))"

text \<open>
  \<^verbatim>\<open>std::string::substr(pos, n)\<close>: at most \<open>n\<close> characters from position
  \<open>pos\<close>. The library throws when \<open>pos\<close> is beyond the end of the string; the only
  call, in \<^verbatim>\<open>trimWhiteSpace\<close>, passes a position that \<^verbatim>\<open>find_first_not_of\<close>
  found, which lies inside the string (lemma \<open>find_first_not_of_less\<close>).
\<close>

definition substr :: "string \<Rightarrow> nat \<Rightarrow> nat \<Rightarrow> string" where
  "substr s pos n = take n (drop pos s)"

text \<open>
  \<^verbatim>\<open>trimWhiteSpace\<close> works on its argument in place and may write one line to
  \<^verbatim>\<open>std::cerr\<close>. The model returns the string afterwards together with the lines
  written to \<^verbatim>\<open>std::cerr\<close>.
\<close>

definition trimFailed :: string where
  "trimFailed = ''Error: Trimming of whitespace failed.''"

definition trimWhiteSpace :: "string \<Rightarrow> string \<times> string list" where
  "trimWhiteSpace inString =
     (let startOfWord = find_first_not_of inString whiteSpace;
          endOfWord = find_last_not_of inString whiteSpace
      in case (startOfWord, endOfWord) of
           (Some s, Some e) \<Rightarrow> (substr inString s (e - s + 1), [])
         | _ \<Rightarrow> (inString, [trimFailed]))"


text \<open>\<^verbatim>\<open>std::to_string(int)\<close>: the decimal digits, with a minus sign when negative.\<close>

definition digit_char :: "nat \<Rightarrow> char" where
  "digit_char d = char_of (of_char (CHR ''0'') + d)"

fun string_of_nat :: "nat \<Rightarrow> string" where
  "string_of_nat n =
     (if n < 10 then [digit_char n] else string_of_nat (n div 10) @ [digit_char (n mod 10)])"

declare string_of_nat.simps [simp del]

definition to_string :: "int \<Rightarrow> string" where
  "to_string i = (if i < 0 then CHR ''-'' # string_of_nat (nat (- i)) else string_of_nat (nat i))"

section \<open>The database engine\<close>

text \<open>
  SQLite is a library the program links against; its code is not part of the repository.
  The engine below is modelled from the interface the specification lists for it
  (prepare, bind, step, column, finalize) and from the two \<^verbatim>\<open>CREATE TABLE\<close>
  statements in \<^verbatim>\<open>main\<close>. Integers held in the tables are mathematical integers;
  \<^verbatim>\<open>sqlite3_column_int\<close> hands a stored integer to the program as it is, so the
  tables are taken to hold values in the range of a C \<^verbatim>\<open>int\<close>.
\<close>

datatype sqlval = SqlNull | SqlInt int | SqlText string

text \<open>A row of \<^verbatim>\<open>Customers\<close> and a row of \<^verbatim>\<open>CustomerAddress\<close>, column by column.\<close>

record customer =
  Customer_ID :: int
  Customer_Short_Name :: string
  First_Name :: sqlval
  Last_Name :: sqlval
  Group_Name :: sqlval
  Credit_Limit :: sqlval
  Outstanding_Credit :: sqlval
  Created_On :: sqlval
  Updated_On :: sqlval

record address =
  Address_ID :: int
  Address_Customer_ID :: int
  Address_Type :: sqlval
  Contact_Name :: sqlval
  Address_Line_1 :: sqlval
  Address_Line_2 :: sqlval
  Address_Line_3 :: sqlval
  Address_Line_4 :: sqlval
  Address_Line_5 :: sqlval
  Address_Created_On :: sqlval
  Address_Updated_On :: sqlval

text \<open>
  The state behind a \<^verbatim>\<open>sqlite3*\<close> connection: the two tables, the value of
  \<^verbatim>\<open>DATE('now')\<close>, and the failures the engine is going to report: every call of
  prepare, bind or step on a live statement takes the next entry of \<open>faults\<close>, and
  fails when it is \<open>True\<close> (a full disk, a locked file, no memory). With no entry left
  the engine works.
\<close>

record sqlite3 =
  Customers :: "customer list"
  CustomerAddress :: "address list"
  today :: string
  faults :: "bool list"

text \<open>
  The SQL texts the program prepares. The two \<^verbatim>\<open>selectCount\<close> overloads build their
  text from a column and a table name, which stay strings here.
  \<^item> \<open>SelectCount col tab\<close>: \<^verbatim>\<open>SELECT COUNT(col) FROM tab;\<close>
  \<^item> \<open>SelectCountWhere col tab ccol\<close>: \<^verbatim>\<open>SELECT COUNT(col) FROM tab WHERE ccol = ? ;\<close>
  \<^item> \<open>SelectCustomerID\<close>: \<^verbatim>\<open>SELECT Customer_ID FROM Customers WHERE Customer_Short_Name = ?;\<close>
  \<^item> \<open>SelectAddresses\<close>: \<^verbatim>\<open>SELECT * FROM CustomerAddress WHERE Customer_ID = ?\<close>
  \<^item> \<open>InsertCustomer\<close>: \<^verbatim>\<open>INSERT INTO Customers(Customer_Short_Name, First_Name, Last_Name, Group_Name, Credit_Limit, Outstanding_Credit, Created_On, Updated_On) VALUES (?,?,?,?,?,?,DATE('now'),DATE('now'));\<close>
  \<^item> \<open>UpdateCredit\<close>: \<^verbatim>\<open>UPDATE Customers SET Credit_Limit = ?, Outstanding_Credit = ?,Updated_On = DATE('now') WHERE Customer_ID = ?;\<close>
  \<^item> \<open>DeleteAddresses\<close>: \<^verbatim>\<open>DELETE FROM CustomerAddress WHERE Customer_ID = ?;\<close>
  \<^item> \<open>DeleteCustomer\<close>: \<^verbatim>\<open>DELETE FROM Customers WHERE Customer_ID = ?;\<close>
  \<^item> \<open>DeleteAddress\<close>: \<^verbatim>\<open>DELETE FROM CustomerAddress WHERE Address_ID = ?;\<close>
\<close>

datatype sql =
    SelectCount string string
  | SelectCountWhere string string string
  | SelectCustomerID
  | SelectAddresses
  | InsertCustomer
  | UpdateCredit
  | DeleteAddresses
  | DeleteCustomer
  | DeleteAddress

datatype status =
    SQLITE_OK | SQLITE_ERROR | SQLITE_ROW | SQLITE_DONE
  | SQLITE_MISUSE | SQLITE_RANGE | SQLITE_CONSTRAINT

text \<open>
  A prepared statement: its text, the parameters bound so far (an unbound parameter
  is NULL), and the cursor over its result rows. A \<^verbatim>\<open>sqlite3_stmt*\<close> is a
  \<open>sqlite3_stmt option\<close>, \<open>None\<close> being the null pointer a failed prepare leaves;
  \<open>fresh q\<close> is the statement a successful prepare of \<open>q\<close> gives.
\<close>

record sqlite3_stmt =
  sql :: sql
  bound :: "(nat \<times> sqlval) list"
  started :: bool
  pending :: "sqlval list list"
  current :: "sqlval list"

definition fresh :: "sql \<Rightarrow> sqlite3_stmt" where
  "fresh q = \<lparr>sql = q, bound = [], started = False, pending = [], current = []\<rparr>"

definition param :: "sqlite3_stmt \<Rightarrow> nat \<Rightarrow> sqlval" where
  "param s i = (case map_of (bound s) i of None \<Rightarrow> SqlNull | Some v \<Rightarrow> v)"

fun nparams :: "sql \<Rightarrow> nat" where
  "nparams (SelectCount col tab) = 0"
| "nparams (SelectCountWhere col tab ccol) = 1"
| "nparams SelectCustomerID = 1"
| "nparams SelectAddresses = 1"
| "nparams InsertCustomer = 6"
| "nparams UpdateCredit = 3"
| "nparams DeleteAddresses = 1"
| "nparams DeleteCustomer = 1"
| "nparams DeleteAddress = 1"

text \<open>
  The comparison \<open>=\<close> of a \<^verbatim>\<open>WHERE\<close> clause. NULL equals nothing. A text compared
  with an integer column is read as a number, which for the decimal strings the program
  binds (\<^verbatim>\<open>std::to_string\<close> of an id) is equality with the rendered integer.
\<close>

fun sql_eq :: "sqlval \<Rightarrow> sqlval \<Rightarrow> bool" where
  "sql_eq (SqlInt a) (SqlInt b) = (a = b)"
| "sql_eq (SqlText a) (SqlText b) = (a = b)"
| "sql_eq (SqlInt a) (SqlText b) = (to_string a = b)"
| "sql_eq (SqlText a) (SqlInt b) = (a = to_string b)"
| "sql_eq SqlNull v = False"
| "sql_eq v SqlNull = False"

text \<open>The rows of a table with their column names, in the order of the schema.\<close>

definition customer_row :: "customer \<Rightarrow> (string \<times> sqlval) list" where
  "customer_row c =
     [(''Customer_ID'', SqlInt (Customer_ID c)),
      (''Customer_Short_Name'', SqlText (Customer_Short_Name c)),
      (''First_Name'', First_Name c),
      (''Last_Name'', Last_Name c),
      (''Group_Name'', Group_Name c),
      (''Credit_Limit'', Credit_Limit c),
      (''Outstanding_Credit'', Outstanding_Credit c),
      (''Created_On'', Created_On c),
      (''Updated_On'', Updated_On c)]"

definition address_row :: "address \<Rightarrow> (string \<times> sqlval) list" where
  "address_row a =
     [(''Address_ID'', SqlInt (Address_ID a)),
      (''Customer_ID'', SqlInt (Address_Customer_ID a)),
      (''Address_Type'', Address_Type a),
      (''Contact_Name'', Contact_Name a),
      (''Address_Line_1'', Address_Line_1 a),
      (''Address_Line_2'', Address_Line_2 a),
      (''Address_Line_3'', Address_Line_3 a),
      (''Address_Line_4'', Address_Line_4 a),
      (''Address_Line_5'', Address_Line_5 a),
      (''Created_On'', Address_Created_On a),
      (''Updated_On'', Address_Updated_On a)]"

definition customer_columns :: "string list" where
  "customer_columns =
     [''Customer_ID'', ''Customer_Short_Name'', ''First_Name'', ''Last_Name'', ''Group_Name'',
      ''Credit_Limit'', ''Outstanding_Credit'', ''Created_On'', ''Updated_On'']"

definition address_columns :: "string list" where
  "address_columns =
     [''Address_ID'', ''Customer_ID'', ''Address_Type'', ''Contact_Name'', ''Address_Line_1'',
      ''Address_Line_2'', ''Address_Line_3'', ''Address_Line_4'', ''Address_Line_5'',
      ''Created_On'', ''Updated_On'']"

definition table_columns :: "string \<Rightarrow> string list option" where
  "table_columns tab =
     (if tab = ''Customers'' then Some customer_columns
      else if tab = ''CustomerAddress'' then Some address_columns
      else None)"

definition table_rows :: "sqlite3 \<Rightarrow> string \<Rightarrow> (string \<times> sqlval) list list" where
  "table_rows d tab =
     (if tab = ''Customers'' then map customer_row (Customers d)
      else if tab = ''CustomerAddress'' then map address_row (CustomerAddress d)
      else [])"

text \<open>
  Whether a statement compiles: the table must exist, and so must every column named
  (\<open>*\<close> is accepted inside \<^verbatim>\<open>COUNT\<close>). The fixed statements of the program name
  existing tables and columns.
\<close>

fun compiles :: "sql \<Rightarrow> bool" where
  "compiles (SelectCount col tab) =
     (case table_columns tab of
        None \<Rightarrow> False
      | Some cols \<Rightarrow> col = ''*'' \<or> col \<in> set cols)"
| "compiles (SelectCountWhere col tab ccol) =
     (case table_columns tab of
        None \<Rightarrow> False
      | Some cols \<Rightarrow> (col = ''*'' \<or> col \<in> set cols) \<and> ccol \<in> set cols)"
| "compiles q = True"

text \<open>\<^verbatim>\<open>COUNT(*)\<close> counts rows, \<^verbatim>\<open>COUNT(col)\<close> the rows whose \<open>col\<close> is not NULL.\<close>

definition counted :: "string \<Rightarrow> (string \<times> sqlval) list \<Rightarrow> bool" where
  "counted col r = (col = ''*'' \<or> (case map_of r col of None \<Rightarrow> False | Some v \<Rightarrow> v \<noteq> SqlNull))"

definition matches :: "string \<Rightarrow> sqlval \<Rightarrow> (string \<times> sqlval) list \<Rightarrow> bool" where
  "matches ccol v r = (case map_of r ccol of None \<Rightarrow> False | Some x \<Rightarrow> sql_eq x v)"

definition count_rows :: "string \<Rightarrow> (string \<times> sqlval) list list \<Rightarrow> int" where
  "count_rows col rows = int (length (filter (counted col) rows))"

definition where_rows ::
  "string \<Rightarrow> sqlval \<Rightarrow> (string \<times> sqlval) list list \<Rightarrow> (string \<times> sqlval) list list" where
  "where_rows ccol v rows = filter (matches ccol v) rows"

text \<open>The result rows of a \<^verbatim>\<open>SELECT\<close>; a statement that writes has none.\<close>

definition run_query :: "sqlite3 \<Rightarrow> sqlite3_stmt \<Rightarrow> sqlval list list" where
  "run_query d s =
     (case sql s of
        SelectCount col tab \<Rightarrow> [[SqlInt (count_rows col (table_rows d tab))]]
      | SelectCountWhere col tab ccol \<Rightarrow>
          [[SqlInt (count_rows col (where_rows ccol (param s 1) (table_rows d tab)))]]
      | SelectCustomerID \<Rightarrow>
          map (\<lambda>c. [SqlInt (Customer_ID c)])
            (filter (\<lambda>c. sql_eq (SqlText (Customer_Short_Name c)) (param s 1)) (Customers d))
      | SelectAddresses \<Rightarrow>
          map (\<lambda>a. map snd (address_row a))
            (filter (\<lambda>a. sql_eq (SqlInt (Address_Customer_ID a)) (param s 1)) (CustomerAddress d))
      | _ \<Rightarrow> [])"

fun is_select :: "sql \<Rightarrow> bool" where
  "is_select (SelectCount col tab) = True"
| "is_select (SelectCountWhere col tab ccol) = True"
| "is_select SelectCustomerID = True"
| "is_select SelectAddresses = True"
| "is_select q = False"

text \<open>
  The effect of a statement that writes; \<open>None\<close> is a constraint the schema enforces
  (\<^verbatim>\<open>NOT NULL UNIQUE\<close> on the short name). A new customer gets an id above every id
  in the table (\<^verbatim>\<open>INTEGER PRIMARY KEY AUTOINCREMENT\<close>).
\<close>

definition next_id :: "int list \<Rightarrow> int" where
  "next_id ids = fold max ids 0 + 1"

definition text_of :: "sqlval \<Rightarrow> string option" where
  "text_of v = (case v of SqlNull \<Rightarrow> None | SqlInt i \<Rightarrow> Some (to_string i) | SqlText t \<Rightarrow> Some t)"

definition run_write :: "sqlite3 \<Rightarrow> sqlite3_stmt \<Rightarrow> sqlite3 option" where
  "run_write d s =
     (case sql s of
        InsertCustomer \<Rightarrow>
          (case text_of (param s 1) of
             None \<Rightarrow> None
           | Some name \<Rightarrow>
               if name \<in> set (map Customer_Short_Name (Customers d)) then None
               else Some (d\<lparr>Customers := Customers d @
                      [\<lparr>Customer_ID = next_id (map Customer_ID (Customers d)),
                        Customer_Short_Name = name,
                        First_Name = param s 2,
                        Last_Name = param s 3,
                        Group_Name = param s 4,
                        Credit_Limit = param s 5,
                        Outstanding_Credit = param s 6,
                        Created_On = SqlText (today d),
                        Updated_On = SqlText (today d)\<rparr>]\<rparr>))
      | UpdateCredit \<Rightarrow>
          Some (d\<lparr>Customers :=
            map (\<lambda>c. if sql_eq (SqlInt (Customer_ID c)) (param s 3)
                      then c\<lparr>Credit_Limit := param s 1,
                             Outstanding_Credit := param s 2,
                             Updated_On := SqlText (today d)\<rparr>
                      else c) (Customers d)\<rparr>)
      | DeleteAddresses \<Rightarrow>
          Some (d\<lparr>CustomerAddress :=
            filter (\<lambda>a. \<not> sql_eq (SqlInt (Address_Customer_ID a)) (param s 1)) (CustomerAddress d)\<rparr>)
      | DeleteCustomer \<Rightarrow>
          Some (d\<lparr>Customers :=
            filter (\<lambda>c. \<not> sql_eq (SqlInt (Customer_ID c)) (param s 1)) (Customers d)\<rparr>)
      | DeleteAddress \<Rightarrow>
          Some (d\<lparr>CustomerAddress :=
            filter (\<lambda>a. \<not> sql_eq (SqlInt (Address_ID a)) (param s 1)) (CustomerAddress d)\<rparr>)
      | _ \<Rightarrow> Some d)"

section \<open>The program's world: connection, console input, and what happened\<close>

text \<open>
  Every engine call and every line the program prints is recorded, in order, so that
  claims about what is attempted, skipped, logged or finalized can be stated.
  \<open>Bind\<close>, \<open>Step\<close> and \<open>Finalize\<close> carry the text of the statement they were called
  on, \<open>None\<close> for a null handle.
\<close>

datatype event =
    Prepare sql status
  | Bind "sql option" nat sqlval status
  | Step "sql option" status
  | Finalize "sql option"
  | Cout string
  | Cerr string

record world =
  db :: sqlite3
  cin :: string
  trace :: "event list"

definition record_event :: "event \<Rightarrow> world \<Rightarrow> world" where
  "record_event e w = trace_update (\<lambda>t. t @ [e]) w"

definition cout :: "string \<Rightarrow> world \<Rightarrow> world" where
  "cout msg w = record_event (Cout msg) w"

definition cerr :: "string \<Rightarrow> world \<Rightarrow> world" where
  "cerr msg w = record_event (Cerr msg) w"

definition events_since :: "world \<Rightarrow> world \<Rightarrow> event list" where
  "events_since w w' = drop (length (trace w)) (trace w')"

fun is_prepare :: "event \<Rightarrow> bool" where
  "is_prepare (Prepare q st) = True"
| "is_prepare e = False"

fun is_bind :: "event \<Rightarrow> bool" where
  "is_bind (Bind h i v st) = True"
| "is_bind e = False"

fun is_step :: "event \<Rightarrow> bool" where
  "is_step (Step h st) = True"
| "is_step e = False"

fun is_finalize :: "event \<Rightarrow> bool" where
  "is_finalize (Finalize h) = True"
| "is_finalize e = False"

fun is_engine :: "event \<Rightarrow> bool" where
  "is_engine (Cout msg) = False"
| "is_engine (Cerr msg) = False"
| "is_engine e = True"

fun is_cout :: "event \<Rightarrow> bool" where
  "is_cout (Cout msg) = True"
| "is_cout e = False"

text \<open>The statement an engine call is about.\<close>

fun event_sql :: "event \<Rightarrow> sql option" where
  "event_sql (Prepare q st) = Some q"
| "event_sql (Bind h i v st) = h"
| "event_sql (Step h st) = h"
| "event_sql (Finalize h) = h"
| "event_sql e = None"

text \<open>
  The log: the engine calls and the lines written to \<^verbatim>\<open>std::cerr\<close>, without what
  went to \<^verbatim>\<open>std::cout\<close>.
\<close>

definition log :: "world \<Rightarrow> event list" where
  "log w = filter (\<lambda>e. \<not> is_cout e) (trace w)"

text \<open>The engine calls alone.\<close>

definition calls :: "world \<Rightarrow> event list" where
  "calls w = filter is_engine (trace w)"

text \<open>An engine call that reported a failure.\<close>

fun failed :: "event \<Rightarrow> bool" where
  "failed (Prepare q st) = (st \<noteq> SQLITE_OK)"
| "failed (Bind h i v st) = (st \<noteq> SQLITE_OK)"
| "failed (Step h st) = (st \<noteq> SQLITE_ROW \<and> st \<noteq> SQLITE_DONE)"
| "failed e = False"

subsection \<open>Engine calls\<close>

definition next_fault :: "sqlite3 \<Rightarrow> bool \<times> sqlite3" where
  "next_fault d = (case faults d of [] \<Rightarrow> (False, d) | f # fs \<Rightarrow> (f, d\<lparr>faults := fs\<rparr>))"

text \<open>
  \<^verbatim>\<open>sqlite3_prepare_v2\<close>: on failure the handle is set to the null pointer.
\<close>

definition sqlite3_prepare_v2 :: "sql \<Rightarrow> world \<Rightarrow> (status \<times> sqlite3_stmt option) \<times> world" where
  "sqlite3_prepare_v2 q w =
     (let (f, d) = next_fault (db w);
          st = (if f \<or> \<not> compiles q then SQLITE_ERROR else SQLITE_OK);
          h = (if st = SQLITE_OK then Some (fresh q) else None)
      in ((st, h), w\<lparr>db := d, trace := trace w @ [Prepare q st]\<rparr>))"

text \<open>
  \<^verbatim>\<open>sqlite3_bind_text\<close>, \<^verbatim>\<open>sqlite3_bind_int\<close> and \<^verbatim>\<open>sqlite3_bind_null\<close> differ in
  the value they bind only. A null handle is a misuse, a position the statement does
  not have is out of range; a failed bind leaves the statement as it was.
\<close>

definition sqlite3_bind ::
  "sqlite3_stmt option \<Rightarrow> nat \<Rightarrow> sqlval \<Rightarrow> world \<Rightarrow> (status \<times> sqlite3_stmt option) \<times> world" where
  "sqlite3_bind h i v w =
     (case h of
        None \<Rightarrow> ((SQLITE_MISUSE, None), w\<lparr>trace := trace w @ [Bind None i v SQLITE_MISUSE]\<rparr>)
      | Some s \<Rightarrow>
          (let (f, d) = next_fault (db w);
               st = (if f then SQLITE_ERROR
                     else if i < 1 \<or> nparams (sql s) < i then SQLITE_RANGE
                     else SQLITE_OK);
               s' = (if st = SQLITE_OK then s\<lparr>bound := (i, v) # bound s\<rparr> else s)
           in ((st, Some s'), w\<lparr>db := d, trace := trace w @ [Bind (Some (sql s)) i v st]\<rparr>)))"

definition sqlite3_bind_text ::
  "sqlite3_stmt option \<Rightarrow> nat \<Rightarrow> string \<Rightarrow> world \<Rightarrow> (status \<times> sqlite3_stmt option) \<times> world" where
  "sqlite3_bind_text h i t w = sqlite3_bind h i (SqlText t) w"

definition sqlite3_bind_int ::
  "sqlite3_stmt option \<Rightarrow> nat \<Rightarrow> int \<Rightarrow> world \<Rightarrow> (status \<times> sqlite3_stmt option) \<times> world" where
  "sqlite3_bind_int h i n w = sqlite3_bind h i (SqlInt n) w"

definition sqlite3_bind_null ::
  "sqlite3_stmt option \<Rightarrow> nat \<Rightarrow> world \<Rightarrow> (status \<times> sqlite3_stmt option) \<times> world" where
  "sqlite3_bind_null h i w = sqlite3_bind h i SqlNull w"

text \<open>
  \<^verbatim>\<open>sqlite3_step\<close>: a \<^verbatim>\<open>SELECT\<close> moves to its next result row (\<open>SQLITE_ROW\<close>) or
  is finished (\<open>SQLITE_DONE\<close>); a statement that writes is carried out
  (\<open>SQLITE_DONE\<close>) or refused by a constraint.
\<close>

definition sqlite3_step ::
  "sqlite3_stmt option \<Rightarrow> world \<Rightarrow> (status \<times> sqlite3_stmt option) \<times> world" where
  "sqlite3_step h w =
     (case h of
        None \<Rightarrow> ((SQLITE_MISUSE, None), w\<lparr>trace := trace w @ [Step None SQLITE_MISUSE]\<rparr>)
      | Some s \<Rightarrow>
          (let (f, d) = next_fault (db w) in
           if f then
             ((SQLITE_ERROR, Some s),
              w\<lparr>db := d, trace := trace w @ [Step (Some (sql s)) SQLITE_ERROR]\<rparr>)
           else if is_select (sql s) then
             (case (if started s then pending s else run_query d s) of
                [] \<Rightarrow>
                  ((SQLITE_DONE, Some (s\<lparr>started := True, pending := [], current := []\<rparr>)),
                   w\<lparr>db := d, trace := trace w @ [Step (Some (sql s)) SQLITE_DONE]\<rparr>)
              | r # rs \<Rightarrow>
                  ((SQLITE_ROW, Some (s\<lparr>started := True, pending := rs, current := r\<rparr>)),
                   w\<lparr>db := d, trace := trace w @ [Step (Some (sql s)) SQLITE_ROW]\<rparr>))
           else
             (case run_write d s of
                None \<Rightarrow>
                  ((SQLITE_CONSTRAINT, Some s),
                   w\<lparr>db := d, trace := trace w @ [Step (Some (sql s)) SQLITE_CONSTRAINT]\<rparr>)
              | Some d' \<Rightarrow>
                  ((SQLITE_DONE, Some s),
                   w\<lparr>db := d', trace := trace w @ [Step (Some (sql s)) SQLITE_DONE]\<rparr>))))"

text \<open>
  \<^verbatim>\<open>sqlite3_column_int\<close> and \<^verbatim>\<open>sqlite3_column_text\<close> read the current row. The
  program reads as integers only columns that hold integers (a count, an id); NULL
  reads as 0 and as the null pointer.
\<close>

definition column :: "sqlite3_stmt option \<Rightarrow> nat \<Rightarrow> sqlval" where
  "column h i =
     (case h of
        None \<Rightarrow> SqlNull
      | Some s \<Rightarrow> if i < length (current s) then current s ! i else SqlNull)"

definition sqlite3_column_int :: "sqlite3_stmt option \<Rightarrow> nat \<Rightarrow> int" where
  "sqlite3_column_int h i = (case column h i of SqlInt n \<Rightarrow> n | _ \<Rightarrow> 0)"

definition sqlite3_column_text :: "sqlite3_stmt option \<Rightarrow> nat \<Rightarrow> string option" where
  "sqlite3_column_text h i = text_of (column h i)"

definition sqlite3_finalize :: "sqlite3_stmt option \<Rightarrow> world \<Rightarrow> world" where
  "sqlite3_finalize h w = record_event (Finalize (map_option sql h)) w"

subsection \<open>Console input\<close>

text \<open>
  \<open>cin\<close> holds the characters not yet read. A read at the end of the input fails and
  leaves the variable it was to fill as it was.
  \<^item> \<open>skipws\<close>: what \<^verbatim>\<open>std::ws\<close> and a formatted \<^verbatim>\<open>>>\<close> skip first.
  \<^item> \<open>cin_ignore\<close>: \<^verbatim>\<open>std::cin.ignore(max, '\n')\<close>, the rest of the line and its newline.
  \<^item> \<open>getline\<close>: \<^verbatim>\<open>std::getline(std::cin, x)\<close>;
    \<open>getline_ws\<close>: \<^verbatim>\<open>std::getline(std::cin >> std::ws, x)\<close>.
\<close>

definition newline :: char where
  "newline = CHR 0x0A"

definition skipws :: "string \<Rightarrow> string" where
  "skipws s = dropWhile (\<lambda>c. c \<in> set whiteSpace) s"

definition cin_ignore :: "world \<Rightarrow> world" where
  "cin_ignore w = w\<lparr>cin := drop 1 (dropWhile (\<lambda>c. c \<noteq> newline) (cin w))\<rparr>"

definition getline :: "string \<Rightarrow> world \<Rightarrow> string \<times> world" where
  "getline x w =
     (if cin w = [] then (x, w)
      else (takeWhile (\<lambda>c. c \<noteq> newline) (cin w), cin_ignore w))"

definition getline_ws :: "string \<Rightarrow> world \<Rightarrow> string \<times> world" where
  "getline_ws x w = getline x (w\<lparr>cin := skipws (cin w)\<rparr>)"

text \<open>
  \<^verbatim>\<open>std::cin >> input\<close> for an \<^verbatim>\<open>int\<close>: white space, an optional sign, then digits.
  Without a digit, or with a value an \<^verbatim>\<open>int\<close> cannot hold, the extraction fails.
\<close>

definition is_digit :: "char \<Rightarrow> bool" where
  "is_digit c = (of_char (CHR ''0'') \<le> (of_char c :: nat) \<and> (of_char c :: nat) \<le> of_char (CHR ''9''))"

definition digits_value :: "string \<Rightarrow> int" where
  "digits_value ds = fold (\<lambda>c v. 10 * v + (int (of_char c) - int (of_char (CHR ''0'')))) ds 0"

definition cin_extract_int :: "world \<Rightarrow> int option \<times> world" where
  "cin_extract_int w =
     (let s = skipws (cin w);
          (neg, s1) = (case s of
                         [] \<Rightarrow> (False, s)
                       | c # r \<Rightarrow> if c = CHR ''-'' then (True, r)
                                  else if c = CHR ''+'' then (False, r)
                                  else (False, s));
          ds = takeWhile is_digit s1;
          v = (if neg then - digits_value ds else digits_value ds)
      in if ds = [] then (None, w\<lparr>cin := s1\<rparr>)
         else if v < - (2 ^ 31) \<or> 2 ^ 31 - 1 < v then (None, w\<lparr>cin := dropWhile is_digit s1\<rparr>)
         else (Some v, w\<lparr>cin := dropWhile is_digit s1\<rparr>))"

text \<open>\<^verbatim>\<open>std::cin >> inputChar\<close> for a \<^verbatim>\<open>char\<close>: white space, then one character.\<close>

definition cin_extract_char :: "world \<Rightarrow> char option \<times> world" where
  "cin_extract_char w =
     (case skipws (cin w) of
        [] \<Rightarrow> (None, w\<lparr>cin := []\<rparr>)
      | c # r \<Rightarrow> (Some c, w\<lparr>cin := r\<rparr>))"

section \<open>The program\<close>

text \<open>
  The functions of the program, in the order of the source. A written line is recorded
  without its line break and without the engine's own message text
  (\<^verbatim>\<open>sqlite3_errmsg\<close>); prompts are recorded by their first sentence.

  The loops that wait for the operator can go round forever. Each function with such a
  loop takes a bound \<open>n\<close> on the rounds of any one loop, and \<open>None\<close> says that the
  bound was used up: the function returns if some bound gives \<open>Some\<close>, and it does not
  return if every bound gives \<open>None\<close>.
\<close>

fun getInt :: "nat \<Rightarrow> world \<Rightarrow> (int \<times> world) option" where
  "getInt 0 w = None"
| "getInt (Suc n) w =
     (case cin_extract_int w of
        (None, w1) \<Rightarrow>
          getInt n (cout ''Error. Please enter a valid integer value. '' (cin_ignore w1))
      | (Some input, w1) \<Rightarrow> Some (input, cin_ignore w1))"

fun getYesNo :: "nat \<Rightarrow> world \<Rightarrow> (bool \<times> world) option" where
  "getYesNo 0 w = None"
| "getYesNo (Suc n) w =
     (case cin_extract_char w of
        (inputChar, w1) \<Rightarrow>
          if inputChar = Some CHR ''y'' \<or> inputChar = Some CHR ''Y'' then Some (True, cin_ignore w1)
          else if inputChar = Some CHR ''n'' \<or> inputChar = Some CHR ''N'' then Some (False, cin_ignore w1)
          else getYesNo n (cout ''Error. Please enter a valid answer. [y/n] '' (cin_ignore w1)))"

text \<open>\<^verbatim>\<open>trimWhiteSpace\<close> on a variable of the program, its diagnostic going to the console.\<close>

definition trim_in_place :: "string \<Rightarrow> world \<Rightarrow> string \<times> world" where
  "trim_in_place x w = (case trimWhiteSpace x of (x', msgs) \<Rightarrow> (x', fold cerr msgs w))"

text \<open>
  The overload \<^verbatim>\<open>selectCount(db, colName, tableName)\<close>. \<open>countResult\<close> starts
  as \<open>- 1\<close> and is assigned only after a successful step; the one
  \<^verbatim>\<open>sqlite3_finalize\<close> stands after the nested checks.
\<close>

definition selectCount :: "string \<Rightarrow> string \<Rightarrow> world \<Rightarrow> int \<times> world" where
  "selectCount colName tableName w =
     (case sqlite3_prepare_v2 (SelectCount colName tableName) w of
        ((prepStatus, statementHandle), w1) \<Rightarrow>
          (case (if prepStatus \<noteq> SQLITE_OK then
                   ((- 1, statementHandle), cerr ''Error preparing SELECT COUNT statement: '' w1)
                 else
                   (case sqlite3_step statementHandle w1 of
                      ((stepStatus, h2), w2) \<Rightarrow>
                        if stepStatus \<noteq> SQLITE_ROW then
                          ((- 1, h2), cerr ''Error stepping into SELECT COUNT table: '' w2)
                        else ((sqlite3_column_int h2 0, h2), w2))) of
             ((countResult, h), w3) \<Rightarrow> (countResult, sqlite3_finalize h w3)))"

text \<open>
  The overload \<^verbatim>\<open>selectCount(db, colName, tableName, conditionColName, conditionValue)\<close>.
\<close>

definition selectCount_where ::
  "string \<Rightarrow> string \<Rightarrow> string \<Rightarrow> string \<Rightarrow> world \<Rightarrow> int \<times> world" where
  "selectCount_where colName tableName conditionColName conditionValue w =
     (case sqlite3_prepare_v2 (SelectCountWhere colName tableName conditionColName) w of
        ((prepStatus, statementHandle), w1) \<Rightarrow>
          (case (if prepStatus \<noteq> SQLITE_OK then
                   ((- 1, statementHandle), cerr ''Error preparing SELECT COUNT statement: '' w1)
                 else
                   (case sqlite3_bind_text statementHandle 1 conditionValue w1 of
                      ((bindStatus, h2), w2) \<Rightarrow>
                        if bindStatus \<noteq> SQLITE_OK then
                          ((- 1, h2),
                           cerr ''Error binding column name to SELECT COUNT statement: '' w2)
                        else
                          (case sqlite3_step h2 w2 of
                             ((stepStatus, h3), w3) \<Rightarrow>
                               if stepStatus \<noteq> SQLITE_ROW then
                                 ((- 1, h3), cerr ''Error stepping into SELECT COUNT table: '' w3)
                               else ((sqlite3_column_int h3 0, h3), w3)))) of
             ((countResult, h), w4) \<Rightarrow> (countResult, sqlite3_finalize h w4)))"

definition bindValueOrNull ::
  "sqlite3_stmt option \<Rightarrow> nat \<Rightarrow> string \<Rightarrow> world \<Rightarrow> sqlite3_stmt option \<times> world" where
  "bindValueOrNull inStmt bindNumber inLabel w =
     (case getline [] w of
        (inputLine, w1) \<Rightarrow>
          (case (if inputLine = [] then sqlite3_bind_null inStmt bindNumber w1
                 else (case trim_in_place inputLine w1 of
                         (trimmed, w2) \<Rightarrow> sqlite3_bind_text inStmt bindNumber trimmed w2)) of
             ((bindStatus, h), w3) \<Rightarrow>
               (h, if bindStatus \<noteq> SQLITE_OK
                   then cerr (''Error binding '' @ inLabel @ '' to statement : '') w3
                   else w3)))"



definition getCustomerID :: "string \<Rightarrow> world \<Rightarrow> int \<times> world" where
  "getCustomerID inShortName w =
     (case sqlite3_prepare_v2 SelectCustomerID w of
        ((prepStatus, statementHandle), w1) \<Rightarrow>
          (case (if prepStatus \<noteq> SQLITE_OK then
                   ((- 1, statementHandle), cerr ''Error preparing SELECT ID statement: '' w1)
                 else
                   (case sqlite3_bind_text statementHandle 1 inShortName w1 of
                      ((bindStatus, h2), w2) \<Rightarrow>
                        if bindStatus \<noteq> SQLITE_OK then
                          ((- 1, h2), cerr ''Error binding to SELECT ID statement: '' w2)
                        else
                          (case sqlite3_step h2 w2 of
                             ((stepStatus, h3), w3) \<Rightarrow>
                               if stepStatus \<noteq> SQLITE_ROW then
                                 ((- 1, h3), cerr ''Error stepping into SELECT ID table: '' w3)
                               else ((sqlite3_column_int h3 0, h3), w3)))) of
             ((customerID, h), w4) \<Rightarrow> (customerID, sqlite3_finalize h w4)))"

text \<open>
  \<^verbatim>\<open>getAddressID\<close>, in three parts: the loop over the result rows
  (\<^verbatim>\<open>while (sqlite3_step(statementHandle) == SQLITE_ROW)\<close>), which prints the eleven
  columns of a row and stores its first column; the listing around it, from the prepare
  to the finalize, which yields the vector \<open>addressIDs\<close>; and the loop in which the
  operator picks an id.
\<close>

definition columnHeaders :: "string list" where
  "columnHeaders =
     [''Address_ID'', ''Customer_ID'', ''Address_Type'', ''Contact_Name'', ''Address_Line_1'',
      ''Address_Line_2'', ''Address_Line_3'', ''Address_Line_4'', ''Address_Line_5'',
      ''Created_On'', ''Updated_On'']"

definition print_columns :: "sqlite3_stmt option \<Rightarrow> world \<Rightarrow> world" where
  "print_columns h w =
     fold (\<lambda>i. cout (columnHeaders ! i @ '' : '' @
                  (case sqlite3_column_text h i of None \<Rightarrow> ''NULL'' | Some t \<Rightarrow> t)))
       [0..<11] w"

definition rows_left :: "sqlite3_stmt option \<Rightarrow> world \<Rightarrow> nat" where
  "rows_left h w =
     (case h of
        None \<Rightarrow> 0
      | Some s \<Rightarrow>
          if started s then length (pending s)
          else Suc (length (run_query (snd (next_fault (db w))) s)))"

function getAddressID_rows ::
  "sqlite3_stmt option \<Rightarrow> int list \<Rightarrow> world \<Rightarrow> (sqlite3_stmt option \<times> int list) \<times> world" where
  "getAddressID_rows h addressIDs w =
     (case sqlite3_step h w of
        ((stepStatus, h1), w1) \<Rightarrow>
          if stepStatus = SQLITE_ROW then
            getAddressID_rows h1 (addressIDs @ [sqlite3_column_int h1 0])
              (cout [] (print_columns h1 w1))
          else ((h1, addressIDs), w1))"
  by pat_completeness auto
termination
  by (relation "measure (\<lambda>(h, addressIDs, w). rows_left h w)")
     (auto simp: rows_left_def sqlite3_step_def Let_def
           split: option.splits prod.splits if_splits list.splits)

declare getAddressID_rows.simps [simp del]

definition getAddressID_list :: "int \<Rightarrow> world \<Rightarrow> int list \<times> world" where
  "getAddressID_list customerID w =
     (case sqlite3_prepare_v2 SelectAddresses w of
        ((prepStatus, statementHandle), w1) \<Rightarrow>
          (case (if prepStatus \<noteq> SQLITE_OK then
                   ((statementHandle, []), cerr ''Error preparing statement: '' w1)
                 else
                   (case sqlite3_bind_int statementHandle 1 customerID w1 of
                      ((bindStatus, h2), w2) \<Rightarrow>
                        if bindStatus \<noteq> SQLITE_OK then
                          ((h2, []), cerr ''Error binding ID to statement: '' w2)
                        else getAddressID_rows h2 [] w2)) of
             ((h, addressIDs), w3) \<Rightarrow> (addressIDs, sqlite3_finalize h w3)))"

fun getAddressID_pick :: "nat \<Rightarrow> string \<Rightarrow> int list \<Rightarrow> world \<Rightarrow> (int \<times> world) option" where
  "getAddressID_pick 0 inShortName addressIDs w = None"
| "getAddressID_pick (Suc n) inShortName addressIDs w =
     (case getInt n w of
        None \<Rightarrow> None
      | Some (addressID, w1) \<Rightarrow>
          if addressID \<in> set addressIDs then
            Some (addressID, cout ''Address identified. Proceeding.'' w1)
          else
            getAddressID_pick n inShortName addressIDs
              (cout (''Error: Please enter an address ID which corresponds with customer ''
                       @ inShortName) w1))"

definition getAddressID :: "nat \<Rightarrow> string \<Rightarrow> world \<Rightarrow> (int \<times> world) option" where
  "getAddressID n inShortName w =
     (case getCustomerID inShortName w of
        (customerID, w1) \<Rightarrow>
          if customerID = - 1 then Some (- 1, cout ''Error fetching customer ID: '' w1)
          else
            (case selectCount_where ''*'' ''CustomerAddress'' ''Customer_ID''
                    (to_string customerID) w1 of
               (customerAddresses, w2) \<Rightarrow>
                 if customerAddresses = 0 then Some (- 2, w2)
                 else if customerAddresses < 0 then Some (- 1, w2)
                 else
                   (case getAddressID_list customerID
                           (cout (''Customer '' @ inShortName @ '' is associated with ''
                                    @ to_string customerAddresses @ '' addresses:'') w2) of
                      (addressIDs, w3) \<Rightarrow>
                        (case getAddressID_pick n inShortName addressIDs
                                (cout ''Please enter the address ID of the address you would like to process:'' w3) of
                           None \<Rightarrow> None
                         | Some (addressID, w4) \<Rightarrow> Some (addressID, cout [] w4)))))"

subsection \<open>The operations of \<^verbatim>\<open>main\<close> that the claims are about\<close>

text \<open>
  \<^verbatim>\<open>main\<close> is one menu loop; the branches below are its bodies for one choice of
  the operator. Its variable \<^verbatim>\<open>preparedStatement\<close> is the handle threaded through.

  Add Customer, first the loop that asks for a short name not yet in the table, then
  the insert. No step of the insert is nested under the success of an earlier one.
\<close>

fun main_addCustomer_shortName :: "nat \<Rightarrow> string \<Rightarrow> world \<Rightarrow> (string \<times> world) option" where
  "main_addCustomer_shortName 0 insertShortName w = None"
| "main_addCustomer_shortName (Suc n) insertShortName w =
     (case getline_ws insertShortName
             (cout ''Please enter a unique customer short name, which can be used as an identifier.'' w) of
        (entered, w1) \<Rightarrow>
          (case selectCount_where ''Customer_Short_Name'' ''Customers'' ''Customer_Short_Name''
                  entered w1 of
             (shortNameCount, w2) \<Rightarrow>
               if shortNameCount = 0 then Some (entered, w2)
               else main_addCustomer_shortName n entered
                      (cout ''Error: Short name already in table. Please use new name or amend existing record.'' w2)))"

definition main_addCustomer_insert :: "nat \<Rightarrow> string \<Rightarrow> world \<Rightarrow> world option" where
  "main_addCustomer_insert n insertShortName w =
     (case sqlite3_prepare_v2 InsertCustomer w of
        ((prepStatus, preparedStatement), w1) \<Rightarrow>
     (case sqlite3_bind_text preparedStatement 1 insertShortName
             (if prepStatus \<noteq> SQLITE_OK then cerr ''Error preparing INSERT statement:'' w1 else w1) of
        ((bindStatus1, h1), w2) \<Rightarrow>
     (case bindValueOrNull h1 2 ''Customer First Name''
             (cout ''Please enter the first name of the new customer:''
                (if bindStatus1 \<noteq> SQLITE_OK then cerr ''Error binding short name to statement:'' w2
                 else w2)) of
        (h2, w3) \<Rightarrow>
     (case bindValueOrNull h2 3 ''Customer Surname''
             (cout ''Please enter the surname of the new customer:'' w3) of
        (h3, w4) \<Rightarrow>
     (case bindValueOrNull h3 4 ''Customer Group Name''
             (cout ''Please enter the group name of the new customer:'' w4) of
        (h4, w5) \<Rightarrow>
     (case getInt n (cout ''Please enter the credit limit of the new customer:'' w5) of
        None \<Rightarrow> None
      | Some (inputInt5, w6) \<Rightarrow>
     (case sqlite3_bind_int h4 5 inputInt5 w6 of
        ((bindStatus5, h5), w7) \<Rightarrow>
     (case getInt n
             (cout ''Please enter the outstanding credit of the new customer:''
                (if bindStatus5 \<noteq> SQLITE_OK then cerr ''Error binding credit limit to statement:'' w7
                 else w7)) of
        None \<Rightarrow> None
      | Some (inputInt6, w8) \<Rightarrow>
     (case sqlite3_bind_int h5 6 inputInt6 w8 of
        ((bindStatus6, h6), w9) \<Rightarrow>
     (case sqlite3_step h6
             (if bindStatus6 \<noteq> SQLITE_OK
              then cerr ''Error binding outstanding balance to statement:'' w9 else w9) of
        ((stepStatus, h7), w10) \<Rightarrow>
          Some (sqlite3_finalize h7
                  (if stepStatus = SQLITE_DONE then cout ''Record added successfully.'' w10
                   else cerr ''Error executing statement:'' w10))))))))))))"

definition main_addCustomer :: "nat \<Rightarrow> world \<Rightarrow> world option" where
  "main_addCustomer n w =
     (case main_addCustomer_shortName n [] w of
        None \<Rightarrow> None
      | Some (insertShortName, w1) \<Rightarrow> main_addCustomer_insert n insertShortName w1)"

text \<open>
  Update Customer, the branch for the credit limit and the outstanding credit, for the
  customer id that \<^verbatim>\<open>getCustomerID\<close> gave.
\<close>

definition main_updateCredit :: "nat \<Rightarrow> int \<Rightarrow> world \<Rightarrow> world option" where
  "main_updateCredit n customerID w =
     (case sqlite3_prepare_v2 UpdateCredit w of
        ((prepStatus, preparedStatement), w1) \<Rightarrow>
     (case getInt n
             (cout ''Please enter the updated credit limit of the customer:''
                (if prepStatus \<noteq> SQLITE_OK then cerr ''Error preparing update statement: '' w1
                 else w1)) of
        None \<Rightarrow> None
      | Some (creditValue1, w2) \<Rightarrow>
     (case sqlite3_bind_int preparedStatement 1 creditValue1 w2 of
        ((bindStatus1, h1), w3) \<Rightarrow>
     (case getInt n
             (cout ''Please enter the updated outstanding credit of the customer:''
                (if bindStatus1 \<noteq> SQLITE_OK then cerr ''Error binding new credit limit: '' w3
                 else w3)) of
        None \<Rightarrow> None
      | Some (creditValue2, w4) \<Rightarrow>
     (case sqlite3_bind_int h1 2 creditValue2 w4 of
        ((bindStatus2, h2), w5) \<Rightarrow>
     (case sqlite3_bind_int h2 3 customerID
             (if bindStatus2 \<noteq> SQLITE_OK then cerr ''Error binding new outstanding credit: '' w5
              else w5) of
        ((bindStatus3, h3), w6) \<Rightarrow>
     (case sqlite3_step h3
             (if bindStatus3 \<noteq> SQLITE_OK
              then cerr ''Error binding customer ID to INSERT statement: '' w6 else w6) of
        ((stepStatus, h4), w7) \<Rightarrow>
          Some (sqlite3_finalize h4
                  (if stepStatus \<noteq> SQLITE_DONE then cerr ''Error executing UPDATE statement: '' w7
                   else cout ''Record updated successfully.'' w7)))))))))"

text \<open>
  Remove Customer, for a customer id that is not \<open>- 1\<close>: the confirmation, then the
  two deletes, each nested under the success of its prepare and of its bind.
\<close>

definition main_removeCustomer :: "nat \<Rightarrow> int \<Rightarrow> string \<Rightarrow> world \<Rightarrow> world option" where
  "main_removeCustomer n customerID deleteShortName w =
     (case getYesNo n
             (cout (''This command will delete all customer and address data associated with customer ''
                      @ deleteShortName) w) of
        None \<Rightarrow> None
      | Some (proceedWithDelete, w1) \<Rightarrow>
          if proceedWithDelete then
            (case sqlite3_prepare_v2 DeleteAddresses w1 of
               ((prepStatusA, preparedStatementA), w2) \<Rightarrow>
            (case (if prepStatusA \<noteq> SQLITE_OK then
                     (preparedStatementA, cerr ''Error preparing delete statement: '' w2)
                   else
                     (case sqlite3_bind_int preparedStatementA 1 customerID w2 of
                        ((bindStatus, h1), w3) \<Rightarrow>
                          if bindStatus \<noteq> SQLITE_OK then
                            (h1, cerr ''Error binding Customer ID to statement: '' w3)
                          else
                            (case sqlite3_step h1 w3 of
                               ((stepStatus, h2), w4) \<Rightarrow>
                                 (h2, if stepStatus \<noteq> SQLITE_DONE
                                      then cerr ''Error executing DELETE statement: '' w4
                                      else cout (''Addresses associated with customer ''
                                                   @ deleteShortName @ '' deleted successfully.'') w4)))) of
               (hA, w5) \<Rightarrow>
            (case sqlite3_prepare_v2 DeleteCustomer (sqlite3_finalize hA w5) of
               ((prepStatusC, preparedStatementC), w6) \<Rightarrow>
            (case (if prepStatusC \<noteq> SQLITE_OK then
                     (preparedStatementC, cerr ''Error preparing DELETE statement: '' w6)
                   else
                     (case sqlite3_bind_int preparedStatementC 1 customerID w6 of
                        ((bindStatus, h1), w7) \<Rightarrow>
                          if bindStatus \<noteq> SQLITE_OK then
                            (h1, cerr ''Error binding Customer ID to statement: '' w7)
                          else
                            (case sqlite3_step h1 w7 of
                               ((stepStatus, h2), w8) \<Rightarrow>
                                 (h2, if stepStatus \<noteq> SQLITE_DONE
                                      then cerr ''Error executing DELETE statement: '' w8
                                      else cout (''Customer data for '' @ deleteShortName
                                                   @ '' deleted successfully.'') w8)))) of
               (hC, w9) \<Rightarrow> Some (sqlite3_finalize hC w9)))))
          else Some (cout ''Deletion of data aborted.'' w1))"

text \<open>
  Remove Address (single). The source reads
  \<^verbatim>\<open>if(preparedStatement!=SQLITE_OK) if (prepStatus != SQLITE_OK) ... else { ... }\<close>:
  the outer test compares the handle with 0, so it asks whether the handle is not
  null, and the \<^verbatim>\<open>else\<close> belongs to the inner test.
\<close>

definition main_removeAddress :: "nat \<Rightarrow> string \<Rightarrow> world \<Rightarrow> world option" where
  "main_removeAddress n deleteShortName w =
     (case getAddressID n deleteShortName w of
        None \<Rightarrow> None
      | Some (addressID, w1) \<Rightarrow>
          if addressID = - 2 then
            Some (cout (''Customer '' @ deleteShortName
                          @ '' is not associated with any addresses in the database.'') w1)
          else if addressID = - 1 then
            Some (cout (''Error fetching addresses associated with customer '' @ deleteShortName) w1)
          else
            (case getYesNo n
                    (cout (''This statement will delete address '' @ to_string addressID
                             @ '' from the database. Would you like to proceed? [y/n]'') w1) of
               None \<Rightarrow> None
             | Some (proceedWithDelete, w2) \<Rightarrow>
                 if proceedWithDelete then
                   (case sqlite3_prepare_v2 DeleteAddress w2 of
                      ((prepStatus, preparedStatement), w3) \<Rightarrow>
                   (case (if preparedStatement \<noteq> None then
                            (if prepStatus \<noteq> SQLITE_OK then
                               (preparedStatement, cerr ''Error preparing DELETE statement: '' w3)
                             else
                               (case sqlite3_bind_int preparedStatement 1 addressID w3 of
                                  ((bindStatus, h1), w4) \<Rightarrow>
                                    if bindStatus \<noteq> SQLITE_OK then
                                      (h1, cerr ''Error binding Customer ID to statement: '' w4)
                                    else
                                      (case sqlite3_step h1 w4 of
                                         ((stepStatus, h2), w5) \<Rightarrow>
                                           (h2, if stepStatus \<noteq> SQLITE_DONE
                                                then cerr ''Error executing DELETE statement: '' w5
                                                else cout (''Address '' @ to_string addressID
                                                             @ '' deleted successfully.'') w5))))
                          else (preparedStatement, w3)) of
                      (h, w6) \<Rightarrow> Some (sqlite3_finalize h w6)))
                 else Some (cout ''Deletion of address aborted.'' w2)))"

section \<open>Notions for the proofs\<close>


definition cursor :: "sqlite3_stmt option \<Rightarrow> world \<Rightarrow> sqlval list list" where
  "cursor h w = (case h of None \<Rightarrow> [] | Some s \<Rightarrow> if started s then pending s else run_query (db w) s)"

text \<open>Two worlds whose tables and date are the same.\<close>

definition same_tables :: "world \<Rightarrow> world \<Rightarrow> bool" where
  "same_tables w w' \<longleftrightarrow>
     Customers (db w') = Customers (db w) \<and> CustomerAddress (db w') = CustomerAddress (db w)
     \<and> today (db w') = today (db w)"

text \<open>
  What an update of the credit of customer \<open>customerID\<close> may do to a row \<open>c\<close> of
  \<^verbatim>\<open>Customers\<close>, giving \<open>c'\<close>: nothing when the row is of another customer, and
  otherwise nothing to the id, the three names and the creation date.
\<close>

definition credit_only :: "int \<Rightarrow> customer \<Rightarrow> customer \<Rightarrow> bool" where
  "credit_only customerID c c' \<longleftrightarrow>
     (Customer_ID c \<noteq> customerID \<longrightarrow> c' = c)
     \<and> Customer_ID c' = Customer_ID c
     \<and> Customer_Short_Name c' = Customer_Short_Name c
     \<and> First_Name c' = First_Name c
     \<and> Last_Name c' = Last_Name c
     \<and> Group_Name c' = Group_Name c
     \<and> Created_On c' = Created_On c"

text \<open>
  The line a failure writes to \<^verbatim>\<open>std::cerr\<close>, or nothing; and the handle a prepare
  with status \<open>st\<close> leaves, as the statement text the later calls are recorded with.
\<close>

definition reported :: "bool \<Rightarrow> string \<Rightarrow> event list" where
  "reported failure msg = (if failure then [Cerr msg] else [])"

definition handle_of :: "sql \<Rightarrow> status \<Rightarrow> sql option" where
  "handle_of q st = (if st = SQLITE_OK then Some q else None)"

text \<open>
  The lines a statement run in nested form (prepare, and only after its success bind,
  and only after its success step, then one finalize) leaves in the log: \<open>m1\<close>, \<open>m2\<close>
  and \<open>m3\<close> are the messages for a failed prepare, bind and step.
\<close>

definition nested_log :: "sql \<Rightarrow> sqlval \<Rightarrow> string \<Rightarrow> string \<Rightarrow> string \<Rightarrow> event list \<Rightarrow> bool" where
  "nested_log q v m1 m2 m3 L \<longleftrightarrow>
     (\<exists>st. st \<noteq> SQLITE_OK \<and> L = [Prepare q st, Cerr m1, Finalize None])
   \<or> (\<exists>st. st \<noteq> SQLITE_OK
          \<and> L = [Prepare q SQLITE_OK, Bind (Some q) 1 v st, Cerr m2, Finalize (Some q)])
   \<or> (\<exists>st. st \<noteq> SQLITE_DONE
          \<and> L = [Prepare q SQLITE_OK, Bind (Some q) 1 v SQLITE_OK, Step (Some q) st, Cerr m3,
                  Finalize (Some q)])
   \<or> L = [Prepare q SQLITE_OK, Bind (Some q) 1 v SQLITE_OK, Step (Some q) SQLITE_DONE,
           Finalize (Some q)]"

section \<open>Sample data\<close>

text \<open>
  Two customers and three addresses of \<^verbatim>\<open>insertSampleData\<close>, an engine over them
  that is going to report the failures \<open>fs\<close>, and a world whose operator types
  \<open>input\<close>.
\<close>

definition sample_customer :: "int \<Rightarrow> string \<Rightarrow> string \<Rightarrow> customer" where
  "sample_customer i short first =
     \<lparr>Customer_ID = i, Customer_Short_Name = short, First_Name = SqlText first,
      Last_Name = SqlText ''Smith'', Group_Name = SqlText ''SMITH FAMILY'',
      Credit_Limit = SqlInt 10000, Outstanding_Credit = SqlInt 0,
      Created_On = SqlText ''2021-01-01'', Updated_On = SqlText ''2021-01-01''\<rparr>"

definition sample_address :: "int \<Rightarrow> int \<Rightarrow> string \<Rightarrow> string \<Rightarrow> address" where
  "sample_address i c kind line1 =
     \<lparr>Address_ID = i, Address_Customer_ID = c, Address_Type = SqlText kind,
      Contact_Name = SqlText [], Address_Line_1 = SqlText line1,
      Address_Line_2 = SqlText ''London'', Address_Line_3 = SqlNull,
      Address_Line_4 = SqlNull, Address_Line_5 = SqlNull,
      Address_Created_On = SqlText ''2021-01-01'',
      Address_Updated_On = SqlText ''2021-01-01''\<rparr>"

definition sample_db :: "bool list \<Rightarrow> sqlite3" where
  "sample_db fs =
     \<lparr>Customers = [sample_customer 1 ''JSMITH'' ''John'', sample_customer 2 ''MSMITH'' ''Mary''],
      CustomerAddress =
        [sample_address 1 1 ''HOME'' ''1 Regent Road'',
         sample_address 2 2 ''HOME'' ''1 Regent Road'',
         sample_address 4 1 ''WORK'' ''26 Lombard Street''],
      today = ''2021-06-01'',
      faults = fs\<rparr>"

definition sample_world :: "string \<Rightarrow> bool list \<Rightarrow> world" where
  "sample_world input fs = \<lparr>db = sample_db fs, cin = input, trace = []\<rparr>"

section \<open>Trimming\<close>

named_theorems frame \<open>what a call leaves unchanged, and what it adds to the trace\<close>

lemma find_first_not_of_eq:
  "find_first_not_of s cs =
     (if set s \<subseteq> set cs then None else Some (length (takeWhile (\<lambda>c. c \<in> set cs) s)))"
  by (induction s) auto

lemma find_first_not_of_less: "find_first_not_of s cs = Some i \<Longrightarrow> i < length s"
  by (induction s arbitrary: i) (auto split: if_splits)

lemma find_last_not_of_eq:
  "find_last_not_of s cs =
     (if set s \<subseteq> set cs then None
      else Some (length s - 1 - length (takeWhile (\<lambda>c. c \<in> set cs) (rev s))))"
  by (simp add: find_last_not_of_def find_first_not_of_eq)

lemma dropWhile_hd:
  "\<not> set xs \<subseteq> C \<Longrightarrow>
     dropWhile (\<lambda>c. c \<in> C) xs \<noteq> [] \<and> hd (dropWhile (\<lambda>c. c \<in> C) xs) \<notin> C"
  by (induction xs) auto

lemma takeWhile_stop:
  "\<forall>x\<in>set a. P x \<Longrightarrow> b \<noteq> [] \<Longrightarrow> \<not> P (hd b) \<Longrightarrow> takeWhile P (a @ b @ c) = a"
  by (induction a) (auto simp: neq_Nil_conv)

text \<open>
  A string with a character outside \<open>C\<close> splits into a leading run inside \<open>C\<close>, a
  middle part that starts and ends outside \<open>C\<close>, and a trailing run inside \<open>C\<close>.
\<close>

lemma trim_split:
  assumes "\<not> set s \<subseteq> C"
  shows "\<exists>pre mid post. s = pre @ mid @ post \<and> set pre \<subseteq> C \<and> set post \<subseteq> C \<and> mid \<noteq> []
      \<and> hd mid \<notin> C \<and> last mid \<notin> C
      \<and> pre = takeWhile (\<lambda>c. c \<in> C) s \<and> rev post = takeWhile (\<lambda>c. c \<in> C) (rev s)"
proof -
  define P where "P = (\<lambda>c. c \<in> C)"
  define pre where "pre = takeWhile P s"
  define rest where "rest = dropWhile P s"
  define tsop where "tsop = takeWhile P (rev rest)"
  define dim where "dim = dropWhile P (rev rest)"
  have s: "s = pre @ rest" by (simp add: pre_def rest_def)
  have rest_ne: "rest \<noteq> []" and hd_rest: "hd rest \<notin> C"
    using dropWhile_hd[OF assms] by (simp_all add: rest_def P_def)
  have "\<not> set rest \<subseteq> C" using rest_ne hd_rest hd_in_set by blast
  then have "\<not> set (rev rest) \<subseteq> C" by simp
  from dropWhile_hd[OF this] have dim_ne: "dim \<noteq> []" and hd_dim: "hd dim \<notin> C"
    by (simp_all add: dim_def P_def)
  have rr: "rev rest = tsop @ dim" by (simp add: tsop_def dim_def)
  then have rest: "rest = rev dim @ rev tsop" by (metis rev_append rev_rev_ident)
  have pre_ws: "set pre \<subseteq> C" unfolding pre_def P_def by (auto dest: set_takeWhileD)
  have post_ws: "\<forall>x\<in>set tsop. P x" unfolding tsop_def by (auto dest: set_takeWhileD)
  have a: "takeWhile P (rev s) = tsop"
  proof -
    have "rev s = tsop @ dim @ rev pre" using s rr by simp
    then show ?thesis
      using takeWhile_stop[OF post_ws dim_ne, of "rev pre"] hd_dim by (simp add: P_def)
  qed
  have hd_mid: "hd (rev dim) \<notin> C" using hd_rest rest dim_ne by simp
  have last_mid: "last (rev dim) \<notin> C" using hd_dim dim_ne by (simp add: last_rev)
  show ?thesis
    apply (rule exI[of _ pre], rule exI[of _ "rev dim"], rule exI[of _ "rev tsop"])
    using s rest dim_ne hd_mid last_mid a pre_ws post_ws
    by (auto simp: P_def pre_def)
qed

lemma trimWhiteSpace_cases:
  "set s \<subseteq> set whiteSpace \<Longrightarrow> trimWhiteSpace s = (s, [trimFailed])"
  "\<not> set s \<subseteq> set whiteSpace \<Longrightarrow> snd (trimWhiteSpace s) = []"
  by (simp_all add: trimWhiteSpace_def find_first_not_of_eq find_last_not_of_eq)

lemma trimWhiteSpace_middle:
  assumes "s = pre @ mid @ post" "mid \<noteq> []"
    and "pre = takeWhile (\<lambda>c. c \<in> set whiteSpace) s"
    and "rev post = takeWhile (\<lambda>c. c \<in> set whiteSpace) (rev s)"
    and "\<not> set s \<subseteq> set whiteSpace"
  shows "fst (trimWhiteSpace s) = mid"
proof -
  have len: "length s - 1 - length post - length pre + 1 = length mid"
    using assms(1,2) by (cases mid) auto
  have "substr s (length pre) (length mid) = mid"
    using assms(1) by (simp add: substr_def)
  moreover have "length (takeWhile (\<lambda>c. c \<in> set whiteSpace) (rev s)) = length post"
    using assms(4) by (metis length_rev)
  ultimately show ?thesis
    using assms(3,5) len
    by (simp add: trimWhiteSpace_def find_first_not_of_eq find_last_not_of_eq)
qed

text \<open>
  C5. When the string has a character that is not white space, \<^verbatim>\<open>trimWhiteSpace\<close>
  removes a leading and a trailing run of white space and nothing else: what is left
  starts and ends with a character that is not white space, so the runs removed are
  all of the leading and trailing white space and the interior is kept in order; no
  diagnostic is written. When the string is empty or all white space, the diagnostic
  is written and the string stays as it is.
\<close>

theorem trimWhiteSpace_trims:
  "(\<not> set s \<subseteq> set whiteSpace \<longrightarrow>
      (\<exists>pre post. s = pre @ fst (trimWhiteSpace s) @ post
          \<and> set pre \<subseteq> set whiteSpace \<and> set post \<subseteq> set whiteSpace
          \<and> fst (trimWhiteSpace s) \<noteq> []
          \<and> hd (fst (trimWhiteSpace s)) \<notin> set whiteSpace
          \<and> last (fst (trimWhiteSpace s)) \<notin> set whiteSpace)
      \<and> snd (trimWhiteSpace s) = [])
   \<and> (set s \<subseteq> set whiteSpace \<longrightarrow> trimWhiteSpace s = (s, [trimFailed]))"
proof (intro conjI impI)
  assume ns: "\<not> set s \<subseteq> set whiteSpace"
  from trim_split[OF ns] obtain pre mid post where
    s: "s = pre @ mid @ post" and mid: "mid \<noteq> []" "hd mid \<notin> set whiteSpace"
      "last mid \<notin> set whiteSpace"
    and pre: "pre = takeWhile (\<lambda>c. c \<in> set whiteSpace) s" "set pre \<subseteq> set whiteSpace"
    and post: "rev post = takeWhile (\<lambda>c. c \<in> set whiteSpace) (rev s)"
      "set post \<subseteq> set whiteSpace"
    by blast
  have "fst (trimWhiteSpace s) = mid"
    by (rule trimWhiteSpace_middle[OF s mid(1) pre(1) post(1) ns])
  then show "\<exists>pre post. s = pre @ fst (trimWhiteSpace s) @ post
          \<and> set pre \<subseteq> set whiteSpace \<and> set post \<subseteq> set whiteSpace
          \<and> fst (trimWhiteSpace s) \<noteq> []
          \<and> hd (fst (trimWhiteSpace s)) \<notin> set whiteSpace
          \<and> last (fst (trimWhiteSpace s)) \<notin> set whiteSpace"
    using s mid pre(2) post(2) by blast
  show "snd (trimWhiteSpace s) = []" using ns by (rule trimWhiteSpace_cases(2))
next
  assume "set s \<subseteq> set whiteSpace"
  then show "trimWhiteSpace s = (s, [trimFailed])" by (rule trimWhiteSpace_cases(1))
qed

theorem trimWhiteSpace_trims_witness:
  "snd (trimWhiteSpace '' J SMITH  '') = []
   \<and> (\<exists>pre post. '' J SMITH  '' = pre @ fst (trimWhiteSpace '' J SMITH  '') @ post
          \<and> set pre \<subseteq> set whiteSpace \<and> set post \<subseteq> set whiteSpace
          \<and> hd (fst (trimWhiteSpace '' J SMITH  '')) \<notin> set whiteSpace
          \<and> last (fst (trimWhiteSpace '' J SMITH  '')) \<notin> set whiteSpace)
   \<and> trimWhiteSpace ''  '' = (''  '', [trimFailed])"
proof -
  have a: "\<not> set '' J SMITH  '' \<subseteq> set whiteSpace" by (simp add: whiteSpace_def)
  have b: "set ''  '' \<subseteq> set whiteSpace" by (simp add: whiteSpace_def)
  show ?thesis
    using trimWhiteSpace_trims[of "'' J SMITH  ''"] trimWhiteSpace_trims[of "''  ''"] a b
    by blast
qed

section \<open>What the engine calls change\<close>

lemma next_fault_tables [frame]:
  "Customers (snd (next_fault d)) = Customers d"
  "CustomerAddress (snd (next_fault d)) = CustomerAddress d"
  "today (snd (next_fault d)) = today d"
  by (simp_all add: next_fault_def split: list.splits)

lemma cout_frame [frame]:
  "db (cout m w) = db w" "cin (cout m w) = cin w" "trace (cout m w) = trace w @ [Cout m]"
  by (simp_all add: cout_def record_event_def)

lemma cerr_frame [frame]:
  "db (cerr m w) = db w" "cin (cerr m w) = cin w" "trace (cerr m w) = trace w @ [Cerr m]"
  by (simp_all add: cerr_def record_event_def)

lemma finalize_frame [frame]:
  "db (sqlite3_finalize h w) = db w" "cin (sqlite3_finalize h w) = cin w"
  "trace (sqlite3_finalize h w) = trace w @ [Finalize (map_option sql h)]"
  by (simp_all add: sqlite3_finalize_def record_event_def)

lemma prepare_frame [frame]:
  "Customers (db (snd (sqlite3_prepare_v2 q w))) = Customers (db w)"
  "CustomerAddress (db (snd (sqlite3_prepare_v2 q w))) = CustomerAddress (db w)"
  "today (db (snd (sqlite3_prepare_v2 q w))) = today (db w)"
  "cin (snd (sqlite3_prepare_v2 q w)) = cin w"
  "trace (snd (sqlite3_prepare_v2 q w)) =
     trace w @ [Prepare q (fst (fst (sqlite3_prepare_v2 q w)))]"
  by (simp_all add: sqlite3_prepare_v2_def split_beta Let_def next_fault_tables)

lemma prepare_handle:
  "snd (fst (sqlite3_prepare_v2 q w)) =
     (if fst (fst (sqlite3_prepare_v2 q w)) = SQLITE_OK then Some (fresh q) else None)"
  by (simp add: sqlite3_prepare_v2_def split_beta Let_def)

lemma bind_frame [frame]:
  "Customers (db (snd (sqlite3_bind h i v w))) = Customers (db w)"
  "CustomerAddress (db (snd (sqlite3_bind h i v w))) = CustomerAddress (db w)"
  "today (db (snd (sqlite3_bind h i v w))) = today (db w)"
  "cin (snd (sqlite3_bind h i v w)) = cin w"
  "trace (snd (sqlite3_bind h i v w)) =
     trace w @ [Bind (map_option sql h) i v (fst (fst (sqlite3_bind h i v w)))]"
  by (simp_all add: sqlite3_bind_def split_beta Let_def next_fault_tables split: option.splits)

lemma bind_handle:
  "snd (fst (sqlite3_bind h i v w)) =
     (case h of
        None \<Rightarrow> None
      | Some s \<Rightarrow> Some (if fst (fst (sqlite3_bind h i v w)) = SQLITE_OK
                        then s\<lparr>bound := (i, v) # bound s\<rparr> else s))"
  by (simp add: sqlite3_bind_def split_beta Let_def split: option.splits)

lemma bind_handle_sql [simp]:
  "map_option sql (snd (fst (sqlite3_bind h i v w))) = map_option sql h"
  by (simp add: bind_handle split: option.splits)

lemma step_frame [frame]:
  "today (db (snd (sqlite3_step h w))) = today (db w)"
  "cin (snd (sqlite3_step h w)) = cin w"
  "trace (snd (sqlite3_step h w)) =
     trace w @ [Step (map_option sql h) (fst (fst (sqlite3_step h w)))]"
  apply (simp_all add: sqlite3_step_def split_beta Let_def next_fault_tables
           split: option.splits list.splits)
  apply (auto simp: run_write_def next_fault_tables split: sql.splits option.splits if_splits)
  done

lemma step_handle_sql [simp]:
  "map_option sql (snd (fst (sqlite3_step h w))) = map_option sql h"
  by (simp add: sqlite3_step_def split_beta Let_def split: option.splits list.splits)

lemma step_select_tables:
  "(case h of None \<Rightarrow> True | Some s \<Rightarrow> is_select (sql s)) \<Longrightarrow>
     Customers (db (snd (sqlite3_step h w))) = Customers (db w) \<and>
     CustomerAddress (db (snd (sqlite3_step h w))) = CustomerAddress (db w)"
  by (auto simp add: sqlite3_step_def split_beta Let_def next_fault_tables
        split: option.splits list.splits)

lemma step_not_done_tables:
  "fst (fst (sqlite3_step h w)) \<noteq> SQLITE_DONE \<Longrightarrow>
     Customers (db (snd (sqlite3_step h w))) = Customers (db w) \<and>
     CustomerAddress (db (snd (sqlite3_step h w))) = CustomerAddress (db w)"
  by (auto simp add: sqlite3_step_def split_beta Let_def next_fault_tables
        split: option.splits list.splits)

lemma step_write_done:
  "\<not> is_select (sql s) \<Longrightarrow> fst (fst (sqlite3_step (Some s) w)) = SQLITE_DONE \<Longrightarrow>
     \<exists>d'. run_write (snd (next_fault (db w))) s = Some d'
        \<and> db (snd (sqlite3_step (Some s) w)) = d'"
  by (auto simp add: sqlite3_step_def split_beta Let_def split: option.splits if_splits)

lemma step_delete_addresses:
  assumes "sql s = DeleteAddresses" "fst (fst (sqlite3_step (Some s) w)) = SQLITE_DONE"
  shows "CustomerAddress (db (snd (sqlite3_step (Some s) w))) =
           filter (\<lambda>a. \<not> sql_eq (SqlInt (Address_Customer_ID a)) (param s 1))
             (CustomerAddress (db w))"
    and "Customers (db (snd (sqlite3_step (Some s) w))) = Customers (db w)"
  using step_write_done[of s w] assms by (auto simp: run_write_def next_fault_tables)

lemma step_delete_customer:
  assumes "sql s = DeleteCustomer" "fst (fst (sqlite3_step (Some s) w)) = SQLITE_DONE"
  shows "Customers (db (snd (sqlite3_step (Some s) w))) =
           filter (\<lambda>c. \<not> sql_eq (SqlInt (Customer_ID c)) (param s 1)) (Customers (db w))"
    and "CustomerAddress (db (snd (sqlite3_step (Some s) w))) = CustomerAddress (db w)"
  using step_write_done[of s w] assms by (auto simp: run_write_def next_fault_tables)

lemma step_update_credit:
  assumes "sql s = UpdateCredit" "fst (fst (sqlite3_step (Some s) w)) = SQLITE_DONE"
  shows "Customers (db (snd (sqlite3_step (Some s) w))) =
           map (\<lambda>c. if sql_eq (SqlInt (Customer_ID c)) (param s 3)
                      then c\<lparr>Credit_Limit := param s 1,
                             Outstanding_Credit := param s 2,
                             Updated_On := SqlText (today (db w))\<rparr>
                      else c) (Customers (db w))"
    and "CustomerAddress (db (snd (sqlite3_step (Some s) w))) = CustomerAddress (db w)"
  using step_write_done[of s w] assms by (auto simp: run_write_def next_fault_tables)

lemma table_rows_frame [frame]:
  "table_rows (snd (next_fault d)) t = table_rows d t"
  "table_rows (db (cout m w)) t = table_rows (db w) t"
  "table_rows (db (cerr m w)) t = table_rows (db w) t"
  "table_rows (db (sqlite3_finalize h w)) t = table_rows (db w) t"
  "table_rows (db (snd (sqlite3_prepare_v2 q w))) t = table_rows (db w) t"
  "table_rows (db (snd (sqlite3_bind h i v w))) t = table_rows (db w) t"
  by (simp_all add: table_rows_def frame)

lemma events_since_append [simp]: "trace w' = trace w @ evs \<Longrightarrow> events_since w w' = evs"
  by (simp add: events_since_def)

subsection \<open>Console input and output\<close>

lemma cin_ignore_frame [frame]:
  "db (cin_ignore w) = db w" "trace (cin_ignore w) = trace w"
  by (simp_all add: cin_ignore_def)

lemma getline_frame [frame]:
  "db (snd (getline x w)) = db w" "trace (snd (getline x w)) = trace w"
  "db (snd (getline_ws x w)) = db w" "trace (snd (getline_ws x w)) = trace w"
  by (simp_all add: getline_def getline_ws_def frame)

lemma fold_cerr [frame]:
  "db (fold cerr ms w) = db w" "cin (fold cerr ms w) = cin w"
  "trace (fold cerr ms w) = trace w @ map Cerr ms"
  by (induction ms arbitrary: w) (simp_all add: frame)

lemma trim_in_place_frame [frame]:
  "db (snd (trim_in_place x w)) = db w" "cin (snd (trim_in_place x w)) = cin w"
  "trace (snd (trim_in_place x w)) = trace w @ map Cerr (snd (trimWhiteSpace x))"
  "fst (trim_in_place x w) = fst (trimWhiteSpace x)"
  by (simp_all add: trim_in_place_def split_beta frame)

lemma extract_frame [frame]:
  "db (snd (cin_extract_int w)) = db w" "trace (snd (cin_extract_int w)) = trace w"
  "db (snd (cin_extract_char w)) = db w" "trace (snd (cin_extract_char w)) = trace w"
  by (simp_all add: cin_extract_int_def cin_extract_char_def Let_def split_beta
        split: list.splits)

lemma log_frame [frame]:
  "log (cout m w) = log w"
  "log (cerr m w) = log w @ [Cerr m]"
  "log (sqlite3_finalize h w) = log w @ [Finalize (map_option sql h)]"
  "log (snd (sqlite3_prepare_v2 q w)) = log w @ [Prepare q (fst (fst (sqlite3_prepare_v2 q w)))]"
  "log (snd (sqlite3_bind h i v w)) =
     log w @ [Bind (map_option sql h) i v (fst (fst (sqlite3_bind h i v w)))]"
  "log (snd (sqlite3_step h w)) = log w @ [Step (map_option sql h) (fst (fst (sqlite3_step h w)))]"
  "log (cin_ignore w) = log w"
  "log (snd (getline x w)) = log w"
  "log (snd (getline_ws x w)) = log w"
  "log (snd (cin_extract_int w)) = log w"
  "log (snd (cin_extract_char w)) = log w"
  "log (snd (trim_in_place x w)) = log w @ map Cerr (snd (trimWhiteSpace x))"
  by (simp_all add: log_def frame)

lemma getInt_frame:
  "getInt n w = Some (i, w') \<Longrightarrow> db w' = db w \<and> log w' = log w"
proof (induction n arbitrary: w)
  case 0
  then show ?case by simp
next
  case (Suc n)
  show ?case
  proof (cases "fst (cin_extract_int w)")
    case None
    with Suc.prems have
      "getInt n (cout ''Error. Please enter a valid integer value. ''
                   (cin_ignore (snd (cin_extract_int w)))) = Some (i, w')"
      by (simp add: split_beta)
    from Suc.IH[OF this] show ?thesis by (simp add: frame)
  next
    case (Some a)
    with Suc.prems show ?thesis by (auto simp: split_beta frame)
  qed
qed

lemma getYesNo_frame:
  "getYesNo n w = Some (b, w') \<Longrightarrow> db w' = db w \<and> log w' = log w"
proof (induction n arbitrary: w)
  case 0
  then show ?case by simp
next
  case (Suc n)
  let ?c = "fst (cin_extract_char w)"
  let ?w1 = "snd (cin_extract_char w)"
  show ?case
  proof (cases "?c = Some CHR ''y'' \<or> ?c = Some CHR ''Y'' \<or> ?c = Some CHR ''n'' \<or> ?c = Some CHR ''N''")
    case True
    with Suc.prems show ?thesis by (auto simp: split_beta frame split: if_splits)
  next
    case False
    with Suc.prems have
      "getYesNo n (cout ''Error. Please enter a valid answer. [y/n] '' (cin_ignore ?w1))
         = Some (b, w')"
      by (simp add: split_beta)
    from Suc.IH[OF this] show ?thesis by (simp add: frame)
  qed
qed

section \<open>The count queries\<close>

lemma step_count:
  assumes "sql s = SelectCount c t" "\<not> started s"
  shows "fst (fst (sqlite3_step (Some s) w)) = SQLITE_ROW \<and>
           sqlite3_column_int (snd (fst (sqlite3_step (Some s) w))) 0
             = count_rows c (table_rows (db w) t)
         \<or> fst (fst (sqlite3_step (Some s) w)) = SQLITE_ERROR"
  using assms
  by (simp add: sqlite3_step_def split_beta Let_def run_query_def sqlite3_column_int_def
        column_def frame)

lemma step_count_where:
  assumes "sql s = SelectCountWhere c t cc" "\<not> started s"
  shows "fst (fst (sqlite3_step (Some s) w)) = SQLITE_ROW \<and>
           sqlite3_column_int (snd (fst (sqlite3_step (Some s) w))) 0
             = count_rows c (where_rows cc (param s 1) (table_rows (db w) t))
         \<or> fst (fst (sqlite3_step (Some s) w)) = SQLITE_ERROR"
  using assms
  by (simp add: sqlite3_step_def split_beta Let_def run_query_def sqlite3_column_int_def
        column_def frame)

lemma count_rows_nonneg: "0 \<le> count_rows c rows" "count_rows c rows \<noteq> - 1"
  by (simp_all add: count_rows_def)

text \<open>
  The two overloads, with the handle and the count written out at each exit: \<open>p\<close>,
  \<open>b\<close> and \<open>st\<close> are the results of the prepare, the bind and the step.
\<close>

lemma selectCount_unfold:
  "selectCount c t w =
     (let p = sqlite3_prepare_v2 (SelectCount c t) w in
      if fst (fst p) \<noteq> SQLITE_OK then
        (- 1, sqlite3_finalize None (cerr ''Error preparing SELECT COUNT statement: '' (snd p)))
      else
        (let st = sqlite3_step (Some (fresh (SelectCount c t))) (snd p) in
         if fst (fst st) \<noteq> SQLITE_ROW then
           (- 1, sqlite3_finalize (snd (fst st))
                   (cerr ''Error stepping into SELECT COUNT table: '' (snd st)))
         else (count_rows c (table_rows (db w) t), sqlite3_finalize (snd (fst st)) (snd st))))"
  using step_count[of "fresh (SelectCount c t)" c t "snd (sqlite3_prepare_v2 (SelectCount c t) w)"]
  by (auto simp add: selectCount_def split_beta Let_def prepare_handle fresh_def frame)

lemma selectCount_where_unfold:
  "selectCount_where c t cc v w =
     (let q = SelectCountWhere c t cc; p = sqlite3_prepare_v2 q w in
      if fst (fst p) \<noteq> SQLITE_OK then
        (- 1, sqlite3_finalize None (cerr ''Error preparing SELECT COUNT statement: '' (snd p)))
      else
        (let b = sqlite3_bind (Some (fresh q)) 1 (SqlText v) (snd p) in
         if fst (fst b) \<noteq> SQLITE_OK then
           (- 1, sqlite3_finalize (snd (fst b))
                   (cerr ''Error binding column name to SELECT COUNT statement: '' (snd b)))
         else
          (let st = sqlite3_step (Some ((fresh q)\<lparr>bound := [(1, SqlText v)]\<rparr>)) (snd b) in
           if fst (fst st) \<noteq> SQLITE_ROW then
             (- 1, sqlite3_finalize (snd (fst st))
                     (cerr ''Error stepping into SELECT COUNT table: '' (snd st)))
           else (count_rows c (where_rows cc (SqlText v) (table_rows (db w) t)),
                 sqlite3_finalize (snd (fst st)) (snd st)))))"
  using step_count_where[of "(fresh (SelectCountWhere c t cc))\<lparr>bound := [(1, SqlText v)]\<rparr>" c t cc
           "snd (sqlite3_bind (Some (fresh (SelectCountWhere c t cc))) 1 (SqlText v)
                   (snd (sqlite3_prepare_v2 (SelectCountWhere c t cc) w)))"]
  by (auto simp add: selectCount_where_def split_beta Let_def prepare_handle bind_handle
        fresh_def frame sqlite3_bind_text_def param_def)

lemma selectCount_frame [frame]:
  "Customers (db (snd (selectCount c t w))) = Customers (db w)"
  "CustomerAddress (db (snd (selectCount c t w))) = CustomerAddress (db w)"
  "today (db (snd (selectCount c t w))) = today (db w)"
  "cin (snd (selectCount c t w)) = cin w"
  by (simp_all add: selectCount_def split_beta frame prepare_handle step_select_tables fresh_def)

lemma selectCount_where_frame [frame]:
  "Customers (db (snd (selectCount_where c t cc v w))) = Customers (db w)"
  "CustomerAddress (db (snd (selectCount_where c t cc v w))) = CustomerAddress (db w)"
  "today (db (snd (selectCount_where c t cc v w))) = today (db w)"
  "cin (snd (selectCount_where c t cc v w)) = cin w"
  by (simp_all add: selectCount_where_def split_beta frame sqlite3_bind_text_def
        prepare_handle bind_handle step_select_tables fresh_def)

lemma selectCount_where_result:
  "fst (selectCount_where c t cc v w) = - 1 \<or>
   fst (selectCount_where c t cc v w) = count_rows c (where_rows cc (SqlText v) (table_rows (db w) t))"
  by (simp add: selectCount_where_unfold Let_def)

text \<open>
  C6. Each overload of \<^verbatim>\<open>selectCount\<close> returns \<open>- 1\<close> exactly when one of its
  engine calls (the prepare, the bind of the conditional overload, the step) reported
  a failure; otherwise it returns the count the engine computed, which is not negative.
  In every case the calls it made start with the prepare and end with the one
  \<^verbatim>\<open>sqlite3_finalize\<close>, on the prepared statement, or on the null handle when the
  prepare failed.
\<close>

theorem selectCount_sentinel:
  "(fst (selectCount c t w) = - 1 \<longleftrightarrow>
      (\<exists>e \<in> set (events_since w (snd (selectCount c t w))). failed e))
   \<and> (fst (selectCount c t w) \<noteq> - 1 \<longrightarrow>
        fst (selectCount c t w) = count_rows c (table_rows (db w) t)
        \<and> 0 \<le> fst (selectCount c t w))
   \<and> (\<exists>st evs. events_since w (snd (selectCount c t w)) =
          Prepare (SelectCount c t) st # evs
            @ [Finalize (if st = SQLITE_OK then Some (SelectCount c t) else None)]
         \<and> (\<forall>e \<in> set evs. \<not> is_finalize e \<and> \<not> is_prepare e))
   \<and> (fst (selectCount_where c t cc v w) = - 1 \<longleftrightarrow>
        (\<exists>e \<in> set (events_since w (snd (selectCount_where c t cc v w))). failed e))
   \<and> (fst (selectCount_where c t cc v w) \<noteq> - 1 \<longrightarrow>
        fst (selectCount_where c t cc v w)
          = count_rows c (where_rows cc (SqlText v) (table_rows (db w) t))
        \<and> 0 \<le> fst (selectCount_where c t cc v w))
   \<and> (\<exists>st evs. events_since w (snd (selectCount_where c t cc v w)) =
          Prepare (SelectCountWhere c t cc) st # evs
            @ [Finalize (if st = SQLITE_OK then Some (SelectCountWhere c t cc) else None)]
         \<and> (\<forall>e \<in> set evs. \<not> is_finalize e \<and> \<not> is_prepare e))"
  using step_count[of "fresh (SelectCount c t)" c t "snd (sqlite3_prepare_v2 (SelectCount c t) w)"]
   step_count_where[of "(fresh (SelectCountWhere c t cc))\<lparr>bound := [(1, SqlText v)]\<rparr>" c t cc
           "snd (sqlite3_bind (Some (fresh (SelectCountWhere c t cc))) 1 (SqlText v)
                   (snd (sqlite3_prepare_v2 (SelectCountWhere c t cc) w)))"]
  apply (simp add: selectCount_unfold selectCount_where_unfold Let_def frame count_rows_nonneg
           fresh_def)
  apply (auto simp: count_rows_nonneg)
  done

theorem selectCount_sentinel_witness:
  "fst (selectCount ''*'' ''Customers'' (sample_world [] []))
     = count_rows ''*'' (table_rows (db (sample_world [] [])) ''Customers'')
   \<and> (\<exists>e \<in> set (events_since (sample_world [] [False, True])
          (snd (selectCount_where ''*'' ''Customers'' ''Customer_Short_Name'' ''JSMITH''
                 (sample_world [] [False, True])))). failed e)"
proof -
  have a: "fst (selectCount ''*'' ''Customers'' (sample_world [] [])) \<noteq> - 1"
    by code_simp
  have b: "fst (selectCount_where ''*'' ''Customers'' ''Customer_Short_Name'' ''JSMITH''
                 (sample_world [] [False, True])) = - 1"
    by code_simp
  show ?thesis
    using selectCount_sentinel[of "''*''" "''Customers''" "sample_world [] []" "''*''" "''x''"]
      selectCount_sentinel[of "''*''" "''Customers''" "sample_world [] [False, True]"
         "''Customer_Short_Name''" "''JSMITH''"] a b
    by blast
qed

section \<open>Resolving a short name\<close>


lemma count_short_name_col:
  "count_rows ''Customer_Short_Name'' (where_rows ''Customer_Short_Name'' (SqlText v) (table_rows d ''Customers''))
     = int (length (filter (\<lambda>c. Customer_Short_Name c = v) (Customers d)))"
  by (simp add: count_rows_def where_rows_def table_rows_def counted_def matches_def
        customer_row_def filter_map comp_def)




section \<open>Picking an address\<close>

lemma getCustomerID_frame [frame]:
  "Customers (db (snd (getCustomerID x w))) = Customers (db w)"
  "CustomerAddress (db (snd (getCustomerID x w))) = CustomerAddress (db w)"
  "today (db (snd (getCustomerID x w))) = today (db w)"
  "cin (snd (getCustomerID x w)) = cin w"
  by (simp_all add: getCustomerID_def split_beta frame sqlite3_bind_text_def
        prepare_handle bind_handle step_select_tables fresh_def)

lemma fold_cout_frame:
  "db (fold (\<lambda>i. cout (f i)) xs w) = db w"
  "cin (fold (\<lambda>i. cout (f i)) xs w) = cin w"
  "log (fold (\<lambda>i. cout (f i)) xs w) = log w"
  by (induction xs arbitrary: w) (simp_all add: frame)

lemma print_columns_frame [frame]:
  "db (print_columns h w) = db w" "cin (print_columns h w) = cin w"
  "log (print_columns h w) = log w"
  by (simp_all add: print_columns_def fold_cout_frame)

lemma run_query_tables:
  "Customers d' = Customers d \<Longrightarrow> CustomerAddress d' = CustomerAddress d \<Longrightarrow>
     run_query d' s = run_query d s"
  by (simp add: run_query_def table_rows_def split: sql.splits)

lemma cursor_tables:
  "Customers (db w') = Customers (db w) \<Longrightarrow> CustomerAddress (db w') = CustomerAddress (db w) \<Longrightarrow>
     cursor h w' = cursor h w"
  by (simp add: cursor_def run_query_tables[of "db w'" "db w"] split: option.splits)







lemma getAddressID_list_failed:
  "fst (fst (sqlite3_prepare_v2 SelectAddresses w)) \<noteq> SQLITE_OK \<Longrightarrow>
     fst (getAddressID_list cid w) = []"
  "fst (fst (sqlite3_bind_int (snd (fst (sqlite3_prepare_v2 SelectAddresses w))) 1 cid
               (snd (sqlite3_prepare_v2 SelectAddresses w)))) \<noteq> SQLITE_OK \<Longrightarrow>
     fst (getAddressID_list cid w) = []"
  by (simp_all add: getAddressID_list_def split_beta)

lemma getAddressID_pick_member:
  "getAddressID_pick n x ids w = Some (r, w') \<Longrightarrow> r \<in> set ids \<and> db w' = db w"
proof (induction n arbitrary: w)
  case 0
  then show ?case by simp
next
  case (Suc n)
  from Suc.prems obtain i w1 where g: "getInt n w = Some (i, w1)"
    by (auto split: option.splits)
  from getInt_frame[OF g] have d: "db w1 = db w" by simp
  show ?case
  proof (cases "i \<in> set ids")
    case True
    with Suc.prems g d show ?thesis by (auto simp: frame)
  next
    case False
    with Suc.prems g have "getAddressID_pick n x ids
        (cout (''Error: Please enter an address ID which corresponds with customer '' @ x) w1)
          = Some (r, w')"
      by simp
    from Suc.IH[OF this] d show ?thesis by (simp add: frame)
  qed
qed

lemma getAddressID_pick_empty: "getAddressID_pick n x [] w = None"
  by (induction n arbitrary: w) (auto split: option.splits)




text \<open>
  C10. \<^verbatim>\<open>getAddressID\<close> returns only with one of the early results \<open>- 1\<close> and
  \<open>- 2\<close>, or with an element of a vector \<open>addressIDs\<close> that is not empty. When the
  customer id was resolved and the count of addresses is positive, but the prepare or
  the bind of the listing fails, no id is collected and the function does not return:
  whatever the bound on the rounds of the selection loop, the result is \<open>None\<close>.
\<close>

theorem getAddressID_returns_only_with_ids:
  "let r1 = getCustomerID inShortName w;
       customerID = fst r1;
       r2 = selectCount_where ''*'' ''CustomerAddress'' ''Customer_ID'' (to_string customerID) (snd r1);
       customerAddresses = fst r2;
       w2 = cout (''Customer '' @ inShortName @ '' is associated with ''
                     @ to_string customerAddresses @ '' addresses:'') (snd r2);
       p = sqlite3_prepare_v2 SelectAddresses w2;
       b = sqlite3_bind_int (snd (fst p)) 1 customerID (snd p);
       addressIDs = fst (getAddressID_list customerID w2)
   in (\<forall>addressID w'. getAddressID n inShortName w = Some (addressID, w') \<longrightarrow>
         addressID = - 1 \<or> addressID = - 2 \<or> (addressIDs \<noteq> [] \<and> addressID \<in> set addressIDs))
    \<and> (customerID \<noteq> - 1 \<and> 0 < customerAddresses
         \<and> (fst (fst p) \<noteq> SQLITE_OK \<or> fst (fst b) \<noteq> SQLITE_OK)
        \<longrightarrow> addressIDs = [] \<and> getAddressID n inShortName w = None)"
proof -
  let ?r1 = "getCustomerID inShortName w"
  let ?cid = "fst ?r1"
  let ?r2 = "selectCount_where ''*'' ''CustomerAddress'' ''Customer_ID'' (to_string ?cid) (snd ?r1)"
  let ?w2 = "cout (''Customer '' @ inShortName @ '' is associated with ''
                     @ to_string (fst ?r2) @ '' addresses:'') (snd ?r2)"
  let ?r3 = "getAddressID_list ?cid ?w2"
  let ?w3 = "cout ''Please enter the address ID of the address you would like to process:'' (snd ?r3)"
  let ?p = "sqlite3_prepare_v2 SelectAddresses ?w2"
  let ?b = "sqlite3_bind_int (snd (fst ?p)) 1 ?cid (snd ?p)"
  have a: "addressID = - 1 \<or> addressID = - 2 \<or> (fst ?r3 \<noteq> [] \<and> addressID \<in> set (fst ?r3))"
    if "getAddressID n inShortName w = Some (addressID, w')" for addressID w'
  proof -
    from that consider "addressID = - 1" | "addressID = - 2"
      | w4 where "getAddressID_pick n inShortName (fst ?r3) ?w3 = Some (addressID, w4)"
      by (auto simp add: getAddressID_def split_beta split: if_splits option.splits)
    then show ?thesis
    proof cases
      case 3
      from getAddressID_pick_member[OF 3] have "addressID \<in> set (fst ?r3)" by simp
      then show ?thesis by auto
    qed simp_all
  qed
  have b: "fst ?r3 = [] \<and> getAddressID n inShortName w = None"
    if "?cid \<noteq> - 1" "0 < fst ?r2" "fst (fst ?p) \<noteq> SQLITE_OK \<or> fst (fst ?b) \<noteq> SQLITE_OK"
  proof -
    from that(3) have e: "fst ?r3 = []"
      using getAddressID_list_failed[of ?w2 ?cid] by blast
    then show ?thesis
      using that(1,2) by (simp add: getAddressID_def split_beta getAddressID_pick_empty)
  qed
  show ?thesis unfolding Let_def using a b by blast
qed


theorem getAddressID_returns_only_with_ids_witness:
  "getAddressID 5 ''JSMITH''
     (sample_world (''1'' @ [newline] @ ''4'' @ [newline])
        [False, False, False, False, False, False, True]) = None"
proof -
  let ?w = "sample_world (''1'' @ [newline] @ ''4'' @ [newline])
              [False, False, False, False, False, False, True]"
  have a: "fst (getCustomerID ''JSMITH'' ?w) \<noteq> - 1"
    by code_simp
  have b: "0 < fst (selectCount_where ''*'' ''CustomerAddress'' ''Customer_ID''
                     (to_string (fst (getCustomerID ''JSMITH'' ?w)))
                     (snd (getCustomerID ''JSMITH'' ?w)))"
    by code_simp
  have c: "fst (fst (sqlite3_prepare_v2 SelectAddresses
             (cout (''Customer '' @ ''JSMITH'' @ '' is associated with ''
                     @ to_string (fst (selectCount_where ''*'' ''CustomerAddress'' ''Customer_ID''
                          (to_string (fst (getCustomerID ''JSMITH'' ?w)))
                          (snd (getCustomerID ''JSMITH'' ?w))))
                     @ '' addresses:'')
                (snd (selectCount_where ''*'' ''CustomerAddress'' ''Customer_ID''
                        (to_string (fst (getCustomerID ''JSMITH'' ?w)))
                        (snd (getCustomerID ''JSMITH'' ?w))))))) \<noteq> SQLITE_OK"
    by code_simp
  show ?thesis
    using getAddressID_returns_only_with_ids[of "''JSMITH''" ?w 5, unfolded Let_def] a b c
    by blast
qed

section \<open>Removing a customer\<close>

lemma calls_log: "calls w = filter is_engine (log w)"
proof -
  have "\<not> is_cout e \<and> is_engine e \<longleftrightarrow> is_engine e" for e by (cases e) simp_all
  then show ?thesis by (simp add: calls_def log_def)
qed

text \<open>
  The nested pattern of the deletes: bind under a successful prepare, step under a
  successful bind, one finalize after all of it. The four ways through it.
\<close>

lemma nested_statement:
  fixes q :: sql and v :: int
  defines "p \<equiv> \<lambda>w. sqlite3_prepare_v2 q w"
  assumes blk: "blk =
     (if fst (fst (p w)) \<noteq> SQLITE_OK then (snd (fst (p w)), cerr m1 (snd (p w)))
      else
        (case sqlite3_bind_int (snd (fst (p w))) 1 v (snd (p w)) of
           ((bindStatus, h1), w3) \<Rightarrow>
             if bindStatus \<noteq> SQLITE_OK then (h1, cerr m2 w3)
             else
               (case sqlite3_step h1 w3 of
                  ((stepStatus, h2), w4) \<Rightarrow>
                    (h2, if stepStatus \<noteq> SQLITE_DONE then cerr m3 w4 else cout m4 w4))))"
    and w': "w' = sqlite3_finalize (fst blk) (snd blk)"
    and q: "\<not> is_select q"
  shows "(\<exists>st. st \<noteq> SQLITE_OK
            \<and> log w' = log w @ [Prepare q st, Cerr m1, Finalize None]
            \<and> Customers (db w') = Customers (db w)
            \<and> CustomerAddress (db w') = CustomerAddress (db w))
       \<or> (\<exists>st. st \<noteq> SQLITE_OK
            \<and> log w' = log w @ [Prepare q SQLITE_OK, Bind (Some q) 1 (SqlInt v) st, Cerr m2,
                                 Finalize (Some q)]
            \<and> Customers (db w') = Customers (db w)
            \<and> CustomerAddress (db w') = CustomerAddress (db w))
       \<or> (\<exists>st. st \<noteq> SQLITE_DONE
            \<and> log w' = log w @ [Prepare q SQLITE_OK, Bind (Some q) 1 (SqlInt v) SQLITE_OK,
                                 Step (Some q) st, Cerr m3, Finalize (Some q)]
            \<and> Customers (db w') = Customers (db w)
            \<and> CustomerAddress (db w') = CustomerAddress (db w))
       \<or> (log w' = log w @ [Prepare q SQLITE_OK, Bind (Some q) 1 (SqlInt v) SQLITE_OK,
                             Step (Some q) SQLITE_DONE, Finalize (Some q)]
            \<and> (\<exists>d0. Customers d0 = Customers (db w) \<and> CustomerAddress d0 = CustomerAddress (db w)
                   \<and> today d0 = today (db w)
                   \<and> run_write d0 ((fresh q)\<lparr>bound := [(1, SqlInt v)]\<rparr>) = Some (db w')))"
proof -
  let ?p = "p w"
  let ?b = "sqlite3_bind (Some (fresh q)) 1 (SqlInt v) (snd ?p)"
  let ?s = "(fresh q)\<lparr>bound := [(1, SqlInt v)]\<rparr>"
  let ?st = "sqlite3_step (Some ?s) (snd ?b)"
  consider (prep) "fst (fst ?p) \<noteq> SQLITE_OK"
    | (bind) "fst (fst ?p) = SQLITE_OK" "fst (fst ?b) \<noteq> SQLITE_OK"
    | (step) "fst (fst ?p) = SQLITE_OK" "fst (fst ?b) = SQLITE_OK" "fst (fst ?st) \<noteq> SQLITE_DONE"
    | (executed) "fst (fst ?p) = SQLITE_OK" "fst (fst ?b) = SQLITE_OK" "fst (fst ?st) = SQLITE_DONE"
    by blast
  then show ?thesis
  proof cases
    case prep
    then have "blk = (None, cerr m1 (snd ?p))"
      by (simp add: blk p_def prepare_handle)
    then have "log w' = log w @ [Prepare q (fst (fst ?p)), Cerr m1, Finalize None]"
      "Customers (db w') = Customers (db w)" "CustomerAddress (db w') = CustomerAddress (db w)"
      by (simp_all add: w' frame p_def)
    with prep show ?thesis by blast
  next
    case bind
    then have "blk = (Some (fresh q), cerr m2 (snd ?b))"
      by (simp add: blk p_def prepare_handle bind_handle sqlite3_bind_int_def split_beta)
    then have "log w' = log w @ [Prepare q SQLITE_OK, Bind (Some q) 1 (SqlInt v) (fst (fst ?b)), Cerr m2, Finalize (Some q)]"
      "Customers (db w') = Customers (db w)" "CustomerAddress (db w') = CustomerAddress (db w)"
      using bind(1) by (simp_all add: w' frame p_def fresh_def)
    with bind show ?thesis by blast
  next
    case step
    then have "blk = (snd (fst ?st), cerr m3 (snd ?st))"
      by (simp add: blk p_def prepare_handle bind_handle sqlite3_bind_int_def split_beta fresh_def)
    then have "log w' = log w @ [Prepare q SQLITE_OK, Bind (Some q) 1 (SqlInt v) SQLITE_OK,
                                 Step (Some q) (fst (fst ?st)), Cerr m3, Finalize (Some q)]"
      "Customers (db w') = Customers (db w)" "CustomerAddress (db w') = CustomerAddress (db w)"
      using step(1,2) step_not_done_tables[OF step(3)]
      by (simp_all add: w' frame p_def fresh_def)
    with step show ?thesis by blast
  next
    case executed
    then have b: "blk = (snd (fst ?st), cout m4 (snd ?st))"
      by (simp add: blk p_def prepare_handle bind_handle sqlite3_bind_int_def split_beta fresh_def)
    then have l: "log w' = log w @ [Prepare q SQLITE_OK, Bind (Some q) 1 (SqlInt v) SQLITE_OK,
                                 Step (Some q) SQLITE_DONE, Finalize (Some q)]"
      using executed by (simp add: w' frame p_def fresh_def)
    from step_write_done[of ?s "snd ?b"] q executed(3)
    have "run_write (snd (next_fault (db (snd ?b)))) ?s = Some (db (snd ?st))"
      by (auto simp: fresh_def)
    then have "run_write (snd (next_fault (db (snd ?b)))) ?s = Some (db w')"
      using b by (simp add: w' frame)
    moreover have "Customers (snd (next_fault (db (snd ?b)))) = Customers (db w)"
      "CustomerAddress (snd (next_fault (db (snd ?b)))) = CustomerAddress (db w)"
      "today (snd (next_fault (db (snd ?b)))) = today (db w)"
      by (simp_all add: frame p_def)
    ultimately show ?thesis using l by blast
  qed
qed



lemma log_calls_eq: "log w' = log w \<Longrightarrow> calls w' = calls w"
  by (simp add: calls_log)






section \<open>Updating the credit of a customer\<close>

lemma same_tables_refl [simp]: "same_tables w w"
  by (simp add: same_tables_def)

lemma same_tables_trans: "same_tables w w1 \<Longrightarrow> same_tables w1 w2 \<Longrightarrow> same_tables w w2"
  by (simp add: same_tables_def)

lemma same_tables_console [simp]:
  "same_tables w (cout m w1) = same_tables w w1"
  "same_tables w (cerr m w1) = same_tables w w1"
  "same_tables w (sqlite3_finalize h w1) = same_tables w w1"
  "same_tables (cout m w) w1 = same_tables w w1"
  "same_tables (cerr m w) w1 = same_tables w w1"
  by (simp_all add: same_tables_def frame)

lemma same_tables_if [simp]:
  "same_tables w (if b then cerr m w1 else w1) = same_tables w w1"
  "same_tables (if b then cerr m w else w) w1 = same_tables w w1"
  by simp_all

lemma prepare_eq:
  assumes "sqlite3_prepare_v2 q w = ((st, h), w1)"
  shows "same_tables w w1" "log w1 = log w @ [Prepare q st]"
    "h = (if st = SQLITE_OK then Some (fresh q) else None)"
proof -
  have a: "fst (fst (sqlite3_prepare_v2 q w)) = st" "snd (fst (sqlite3_prepare_v2 q w)) = h"
    "snd (sqlite3_prepare_v2 q w) = w1"
    using assms by simp_all
  show "same_tables w w1" "log w1 = log w @ [Prepare q st]"
    "h = (if st = SQLITE_OK then Some (fresh q) else None)"
    using prepare_frame[of q w] log_frame(4)[of q w] prepare_handle[of q w]
    unfolding a by (simp_all add: same_tables_def)
qed

lemma bind_eq:
  assumes "sqlite3_bind h i v w = ((st, h'), w1)"
  shows "same_tables w w1" "log w1 = log w @ [Bind (map_option sql h) i v st]"
    "h' = (case h of None \<Rightarrow> None
           | Some s \<Rightarrow> Some (if st = SQLITE_OK then s\<lparr>bound := (i, v) # bound s\<rparr> else s))"
proof -
  have a: "fst (fst (sqlite3_bind h i v w)) = st" "snd (fst (sqlite3_bind h i v w)) = h'"
    "snd (sqlite3_bind h i v w) = w1"
    using assms by simp_all
  show "same_tables w w1" "log w1 = log w @ [Bind (map_option sql h) i v st]"
    "h' = (case h of None \<Rightarrow> None
           | Some s \<Rightarrow> Some (if st = SQLITE_OK then s\<lparr>bound := (i, v) # bound s\<rparr> else s))"
    using bind_frame[of h i v w] log_frame(5)[of h i v w] bind_handle[of h i v w]
    unfolding a by (simp_all add: same_tables_def)
qed

lemma step_eq:
  assumes "sqlite3_step h w = ((st, h'), w1)"
  shows "log w1 = log w @ [Step (map_option sql h) st]" "map_option sql h' = map_option sql h"
    "st \<noteq> SQLITE_DONE \<Longrightarrow> same_tables w w1"
proof -
  have a: "fst (fst (sqlite3_step h w)) = st" "snd (fst (sqlite3_step h w)) = h'"
    "snd (sqlite3_step h w) = w1"
    using assms by simp_all
  show "log w1 = log w @ [Step (map_option sql h) st]" "map_option sql h' = map_option sql h"
    "st \<noteq> SQLITE_DONE \<Longrightarrow> same_tables w w1"
    using step_frame[of h w] log_frame(6)[of h w] step_handle_sql[of h w]
      step_not_done_tables[of h w]
    unfolding a by (simp_all add: same_tables_def)
qed

lemma getInt_eq:
  "getInt n w = Some (i, w') \<Longrightarrow> same_tables w w'"
  "getInt n w = Some (i, w') \<Longrightarrow> log w' = log w"
  by (auto dest: getInt_frame simp: same_tables_def)

lemma credit_only_refl: "list_all2 (credit_only v) cs cs"
  by (simp add: list_all2_refl credit_only_def)

lemma credit_only_update:
  assumes "p = SqlNull \<or> p = SqlInt v"
  shows "list_all2 (credit_only v)
      cs (map (\<lambda>c. if sql_eq (SqlInt (Customer_ID c)) p
                      then c\<lparr>Credit_Limit := a, Outstanding_Credit := b, Updated_On := u\<rparr>
                      else c) cs)"
  using assms
  by (induction cs) (auto simp: credit_only_def)

text \<open>
  C9. When the credit branch of Update Customer returns, \<^verbatim>\<open>CustomerAddress\<close> is as
  before, and \<^verbatim>\<open>Customers\<close> has the same rows in the same order, where a row of
  another customer id is unchanged and a row of the resolved id differs at most in
  \<^verbatim>\<open>Credit_Limit\<close>, \<^verbatim>\<open>Outstanding_Credit\<close> and \<^verbatim>\<open>Updated_On\<close>.
\<close>

theorem main_updateCredit_frame:
  assumes "main_updateCredit n customerID w = Some w'"
  shows "CustomerAddress (db w') = CustomerAddress (db w)
       \<and> list_all2 (credit_only customerID) (Customers (db w)) (Customers (db w'))"
proof -
  from assms obtain prepStatus h0 w1 cv1 w2 bs1 h1 w3 cv2 w4 bs2 h2 w5 bs3 h3 w6 ss h4 w7 where
    p: "sqlite3_prepare_v2 UpdateCredit w = ((prepStatus, h0), w1)"
    and g1: "getInt n (cout ''Please enter the updated credit limit of the customer:''
                (if prepStatus \<noteq> SQLITE_OK then cerr ''Error preparing update statement: '' w1
                 else w1)) = Some (cv1, w2)"
    and b1: "sqlite3_bind h0 1 (SqlInt cv1) w2 = ((bs1, h1), w3)"
    and g2: "getInt n (cout ''Please enter the updated outstanding credit of the customer:''
                (if bs1 \<noteq> SQLITE_OK then cerr ''Error binding new credit limit: '' w3
                 else w3)) = Some (cv2, w4)"
    and b2: "sqlite3_bind h1 2 (SqlInt cv2) w4 = ((bs2, h2), w5)"
    and b3: "sqlite3_bind h2 3 (SqlInt customerID)
             (if bs2 \<noteq> SQLITE_OK then cerr ''Error binding new outstanding credit: '' w5
              else w5) = ((bs3, h3), w6)"
    and st: "sqlite3_step h3
             (if bs3 \<noteq> SQLITE_OK
              then cerr ''Error binding customer ID to INSERT statement: '' w6 else w6)
               = ((ss, h4), w7)"
    and w': "w' = sqlite3_finalize h4
                  (if ss \<noteq> SQLITE_DONE then cerr ''Error executing UPDATE statement: '' w7
                   else cout ''Record updated successfully.'' w7)"
    unfolding main_updateCredit_def sqlite3_bind_int_def
    by (auto split: prod.splits option.splits)
  let ?w6 = "(if bs3 \<noteq> SQLITE_OK
              then cerr ''Error binding customer ID to INSERT statement: '' w6 else w6)"
  have t6: "same_tables w ?w6"
  proof -
    have 1: "same_tables w w1" by (rule prepare_eq(1)[OF p])
    have 2: "same_tables w1 w2" using getInt_eq(1)[OF g1] by simp
    have 3: "same_tables w2 w3" by (rule bind_eq(1)[OF b1])
    have 4: "same_tables w3 w4" using getInt_eq(1)[OF g2] by simp
    have 5: "same_tables w4 w5" by (rule bind_eq(1)[OF b2])
    have 6: "same_tables w5 w6" using bind_eq(1)[OF b3] by simp
    have "same_tables w w6"
      by (rule same_tables_trans[OF same_tables_trans[OF same_tables_trans[OF
            same_tables_trans[OF same_tables_trans[OF 1 2] 3] 4] 5] 6])
    then show ?thesis by simp
  qed
  have tw: "Customers (db w') = Customers (db w7)" "CustomerAddress (db w') = CustomerAddress (db w7)"
    by (simp_all add: w' frame)
  show ?thesis
  proof (cases "ss = SQLITE_DONE")
    case False
    from step_eq(3)[OF st False] t6 tw show ?thesis
      by (simp add: same_tables_def credit_only_refl)
  next
    case True
    show ?thesis
    proof (cases h3)
      case None
      with st have "ss = SQLITE_MISUSE" by (simp add: sqlite3_step_def)
      with True show ?thesis by simp
    next
      case (Some s)
      have s: "sql s = UpdateCredit" "param s 3 = SqlNull \<or> param s 3 = SqlInt customerID"
        using prepare_eq(3)[OF p] bind_eq(3)[OF b1] bind_eq(3)[OF b2] bind_eq(3)[OF b3] Some
        by (auto simp add: fresh_def param_def split: if_splits option.splits)
      from step_update_credit[of s ?w6] s(1) True st Some
      have "Customers (db w7) =
           map (\<lambda>c. if sql_eq (SqlInt (Customer_ID c)) (param s 3)
                      then c\<lparr>Credit_Limit := param s 1,
                             Outstanding_Credit := param s 2,
                             Updated_On := SqlText (today (db ?w6))\<rparr>
                      else c) (Customers (db ?w6))"
        and "CustomerAddress (db w7) = CustomerAddress (db ?w6)"
        by simp_all
      moreover have "list_all2 (credit_only customerID) (Customers (db w))
          (map (\<lambda>c. if sql_eq (SqlInt (Customer_ID c)) (param s 3)
                      then c\<lparr>Credit_Limit := param s 1,
                             Outstanding_Credit := param s 2,
                             Updated_On := SqlText (today (db ?w6))\<rparr>
                      else c) (Customers (db w)))"
        using s(2) by (rule credit_only_update)
      ultimately show ?thesis using t6 tw by (simp add: same_tables_def)
    qed
  qed
qed


theorem main_updateCredit_frame_witness:
  "\<exists>w'. main_updateCredit 2 1 (sample_world (''500'' @ [newline] @ ''-6'' @ [newline]) []) = Some w'
        \<and> CustomerAddress (db w') = CustomerAddress (sample_db [])
        \<and> list_all2 (credit_only 1) (Customers (sample_db [])) (Customers (db w'))"
proof -
  have "map_option (\<lambda>w. ())
          (main_updateCredit 2 1 (sample_world (''500'' @ [newline] @ ''-6'' @ [newline]) []))
        = Some ()"
    by code_simp
  then obtain w' where
    r: "main_updateCredit 2 1 (sample_world (''500'' @ [newline] @ ''-6'' @ [newline]) []) = Some w'"
    by auto
  from main_updateCredit_frame[OF r] r show ?thesis by (auto simp: sample_world_def)
qed

section \<open>Adding a customer\<close>

lemma log_if_cerr:
  "log (if b then cerr m w else w) = log w @ reported b m"
  "same_tables w (if b then w1 else cerr m w1) = same_tables w w1"
  "same_tables (if b then w else cerr m w) w1 = same_tables w w1"
  by (simp_all add: reported_def frame)

lemma bindValueOrNull_eq:
  assumes "bindValueOrNull h i l w = (h', w')"
  shows "same_tables w w'" "map_option sql h' = map_option sql h"
    "\<exists>ms v st. log w' = log w @ map Cerr ms @ [Bind (map_option sql h) i v st]
        @ reported (st \<noteq> SQLITE_OK) (''Error binding '' @ l @ '' to statement : '')"
proof -
  obtain inputLine w1 where g: "getline [] w = (inputLine, w1)" by (cases "getline [] w")
  then have w1: "db w1 = db w" "log w1 = log w"
    using getline_frame(1)[of "[]" w] log_frame(8)[of "[]" w] by simp_all
  obtain st hb w3 where
    b: "(if inputLine = [] then sqlite3_bind_null h i w1
         else (case trim_in_place inputLine w1 of
                 (trimmed, w2) \<Rightarrow> sqlite3_bind_text h i trimmed w2)) = ((st, hb), w3)"
    by (metis surj_pair)
  from assms g b have res: "h' = hb"
    "w' = (if st \<noteq> SQLITE_OK then cerr (''Error binding '' @ l @ '' to statement : '') w3 else w3)"
    by (simp_all add: bindValueOrNull_def)
  have "same_tables w1 w3 \<and> map_option sql hb = map_option sql h
      \<and> (\<exists>ms v. log w3 = log w1 @ map Cerr ms @ [Bind (map_option sql h) i v st])"
  proof (cases "inputLine = []")
    case True
    with b have "sqlite3_bind h i SqlNull w1 = ((st, hb), w3)"
      by (simp add: sqlite3_bind_null_def)
    from bind_eq[OF this] show ?thesis
      by (auto split: option.splits intro: exI[of _ "[]"])
  next
    case False
    with b have "sqlite3_bind h i (SqlText (fst (trimWhiteSpace inputLine)))
                   (snd (trim_in_place inputLine w1)) = ((st, hb), w3)"
      by (simp add: sqlite3_bind_text_def split_beta frame)
    from bind_eq[OF this] show ?thesis
      by (auto simp: same_tables_def frame split: option.splits)
  qed
  then show "same_tables w w'" "map_option sql h' = map_option sql h"
    "\<exists>ms v st. log w' = log w @ map Cerr ms @ [Bind (map_option sql h) i v st]
        @ reported (st \<noteq> SQLITE_OK) (''Error binding '' @ l @ '' to statement : '')"
    using res w1 by (auto simp: same_tables_def frame reported_def)
qed


lemma bind_eq_sql:
  "sqlite3_bind h i v w = ((st, h'), w1) \<Longrightarrow> map_option sql h' = map_option sql h"
  by (drule bind_eq(3)) (simp split: option.splits)

lemma prepare_eq_sql:
  "sqlite3_prepare_v2 q w = ((st, h), w1) \<Longrightarrow> map_option sql h = handle_of q st"
  by (drule prepare_eq(3)) (simp add: handle_of_def fresh_def)

lemma main_addCustomer_insert_log:
  assumes "main_addCustomer_insert n name w = Some w'"
  shows "\<exists>st0 st1 ms2 v2 st2 ms3 v3 st3 ms4 v4 st4 i5 st5 i6 st6 ss.
     log w' = log w
       @ Prepare InsertCustomer st0
           # reported (st0 \<noteq> SQLITE_OK) ''Error preparing INSERT statement:''
       @ Bind (handle_of InsertCustomer st0) 1 (SqlText name) st1
           # reported (st1 \<noteq> SQLITE_OK) ''Error binding short name to statement:''
       @ map Cerr ms2 @ Bind (handle_of InsertCustomer st0) 2 v2 st2
           # reported (st2 \<noteq> SQLITE_OK) (''Error binding '' @ ''Customer First Name'' @ '' to statement : '')
       @ map Cerr ms3 @ Bind (handle_of InsertCustomer st0) 3 v3 st3
           # reported (st3 \<noteq> SQLITE_OK) (''Error binding '' @ ''Customer Surname'' @ '' to statement : '')
       @ map Cerr ms4 @ Bind (handle_of InsertCustomer st0) 4 v4 st4
           # reported (st4 \<noteq> SQLITE_OK) (''Error binding '' @ ''Customer Group Name'' @ '' to statement : '')
       @ Bind (handle_of InsertCustomer st0) 5 (SqlInt i5) st5
           # reported (st5 \<noteq> SQLITE_OK) ''Error binding credit limit to statement:''
       @ Bind (handle_of InsertCustomer st0) 6 (SqlInt i6) st6
           # reported (st6 \<noteq> SQLITE_OK) ''Error binding outstanding balance to statement:''
       @ Step (handle_of InsertCustomer st0) ss
           # reported (ss \<noteq> SQLITE_DONE) ''Error executing statement:''
       @ [Finalize (handle_of InsertCustomer st0)]"
proof -
  from assms obtain st0 h0 w1 st1 h1 w2 h2 w3 h3 w4 h4 w5 i5 w6 st5 h5 w7 i6 w8 st6 h6 w9 ss h7 w10
    where p: "sqlite3_prepare_v2 InsertCustomer w = ((st0, h0), w1)"
    and b1: "sqlite3_bind h0 1 (SqlText name)
               (if st0 \<noteq> SQLITE_OK then cerr ''Error preparing INSERT statement:'' w1 else w1)
             = ((st1, h1), w2)"
    and b2: "bindValueOrNull h1 2 ''Customer First Name''
             (cout ''Please enter the first name of the new customer:''
                (if st1 \<noteq> SQLITE_OK then cerr ''Error binding short name to statement:'' w2
                 else w2)) = (h2, w3)"
    and b3: "bindValueOrNull h2 3 ''Customer Surname''
             (cout ''Please enter the surname of the new customer:'' w3) = (h3, w4)"
    and b4: "bindValueOrNull h3 4 ''Customer Group Name''
             (cout ''Please enter the group name of the new customer:'' w4) = (h4, w5)"
    and g5: "getInt n (cout ''Please enter the credit limit of the new customer:'' w5) = Some (i5, w6)"
    and b5: "sqlite3_bind h4 5 (SqlInt i5) w6 = ((st5, h5), w7)"
    and g6: "getInt n
             (cout ''Please enter the outstanding credit of the new customer:''
                (if st5 \<noteq> SQLITE_OK then cerr ''Error binding credit limit to statement:'' w7
                 else w7)) = Some (i6, w8)"
    and b6: "sqlite3_bind h5 6 (SqlInt i6) w8 = ((st6, h6), w9)"
    and st: "sqlite3_step h6
             (if st6 \<noteq> SQLITE_OK
              then cerr ''Error binding outstanding balance to statement:'' w9 else w9)
             = ((ss, h7), w10)"
    and w': "w' = sqlite3_finalize h7
                  (if ss = SQLITE_DONE then cout ''Record added successfully.'' w10
                   else cerr ''Error executing statement:'' w10)"
    unfolding main_addCustomer_insert_def sqlite3_bind_int_def sqlite3_bind_text_def
    by (auto split: prod.splits option.splits)
  let ?H = "handle_of InsertCustomer st0"
  have H: "map_option sql h0 = ?H" "map_option sql h1 = ?H" "map_option sql h2 = ?H"
    "map_option sql h3 = ?H" "map_option sql h4 = ?H" "map_option sql h5 = ?H"
    "map_option sql h6 = ?H" "map_option sql h7 = ?H"
    using prepare_eq_sql[OF p] bind_eq_sql[OF b1] bindValueOrNull_eq(2)[OF b2]
      bindValueOrNull_eq(2)[OF b3] bindValueOrNull_eq(2)[OF b4] bind_eq_sql[OF b5]
      bind_eq_sql[OF b6] step_eq(2)[OF st]
    by simp_all
  from bindValueOrNull_eq(3)[OF b2] obtain ms2 v2 st2 where
    l3: "log w3 = log w2 @ reported (st1 \<noteq> SQLITE_OK) ''Error binding short name to statement:''
          @ map Cerr ms2 @ [Bind ?H 2 v2 st2]
          @ reported (st2 \<noteq> SQLITE_OK) (''Error binding '' @ ''Customer First Name'' @ '' to statement : '')"
    unfolding H by (auto simp: frame log_if_cerr)
  from bindValueOrNull_eq(3)[OF b3] obtain ms3 v3 st3 where
    l4: "log w4 = log w3 @ map Cerr ms3 @ [Bind ?H 3 v3 st3]
          @ reported (st3 \<noteq> SQLITE_OK) (''Error binding '' @ ''Customer Surname'' @ '' to statement : '')"
    unfolding H by (auto simp: frame)
  from bindValueOrNull_eq(3)[OF b4] obtain ms4 v4 st4 where
    l5: "log w5 = log w4 @ map Cerr ms4 @ [Bind ?H 4 v4 st4]
          @ reported (st4 \<noteq> SQLITE_OK) (''Error binding '' @ ''Customer Group Name'' @ '' to statement : '')"
    unfolding H by (auto simp: frame)
  have l1: "log w1 = log w @ [Prepare InsertCustomer st0]" by (rule prepare_eq(2)[OF p])
  have l2: "log w2 = log w1 @ reported (st0 \<noteq> SQLITE_OK) ''Error preparing INSERT statement:''
              @ [Bind ?H 1 (SqlText name) st1]"
    using bind_eq(2)[OF b1] unfolding H by (simp add: log_if_cerr)
  have l6: "log w6 = log w5" using getInt_eq(2)[OF g5] by (simp add: frame)
  have l7: "log w7 = log w6 @ [Bind ?H 5 (SqlInt i5) st5]"
    using bind_eq(2)[OF b5] unfolding H .
  have l8: "log w8 = log w7 @ reported (st5 \<noteq> SQLITE_OK) ''Error binding credit limit to statement:''"
    using getInt_eq(2)[OF g6] by (simp add: frame log_if_cerr)
  have l9: "log w9 = log w8 @ [Bind ?H 6 (SqlInt i6) st6]"
    using bind_eq(2)[OF b6] unfolding H .
  have l10: "log w10 = log w9 @ reported (st6 \<noteq> SQLITE_OK) ''Error binding outstanding balance to statement:''
               @ [Step ?H ss]"
    using step_eq(1)[OF st] unfolding H by (simp add: log_if_cerr)
  have l': "log w' = log w10 @ reported (ss \<noteq> SQLITE_DONE) ''Error executing statement:''
               @ [Finalize ?H]"
    unfolding w' by (simp add: frame H reported_def)
  have "log w' = log w
       @ Prepare InsertCustomer st0
           # reported (st0 \<noteq> SQLITE_OK) ''Error preparing INSERT statement:''
       @ Bind ?H 1 (SqlText name) st1
           # reported (st1 \<noteq> SQLITE_OK) ''Error binding short name to statement:''
       @ map Cerr ms2 @ Bind ?H 2 v2 st2
           # reported (st2 \<noteq> SQLITE_OK) (''Error binding '' @ ''Customer First Name'' @ '' to statement : '')
       @ map Cerr ms3 @ Bind ?H 3 v3 st3
           # reported (st3 \<noteq> SQLITE_OK) (''Error binding '' @ ''Customer Surname'' @ '' to statement : '')
       @ map Cerr ms4 @ Bind ?H 4 v4 st4
           # reported (st4 \<noteq> SQLITE_OK) (''Error binding '' @ ''Customer Group Name'' @ '' to statement : '')
       @ Bind ?H 5 (SqlInt i5) st5
           # reported (st5 \<noteq> SQLITE_OK) ''Error binding credit limit to statement:''
       @ Bind ?H 6 (SqlInt i6) st6
           # reported (st6 \<noteq> SQLITE_OK) ''Error binding outstanding balance to statement:''
       @ Step ?H ss
           # reported (ss \<noteq> SQLITE_DONE) ''Error executing statement:''
       @ [Finalize ?H]"
    unfolding l' l10 l9 l8 l7 l6 l5 l4 l3 l2 l1 by simp
  then show ?thesis by blast
qed


lemma selectCount_where_log:
  "\<exists>evs. log (snd (selectCount_where c t cc v w)) = log w @ evs
      \<and> (\<forall>e \<in> set evs. event_sql e \<noteq> Some InsertCustomer)"
  by (simp add: selectCount_where_unfold Let_def frame fresh_def)

lemma selectCount_where_same_tables: "same_tables w (snd (selectCount_where c t cc v w))"
  by (simp add: same_tables_def frame)

lemma table_rows_same: "same_tables w w' \<Longrightarrow> table_rows (db w') t = table_rows (db w) t"
  by (simp add: same_tables_def table_rows_def)

lemma main_addCustomer_shortName_spec:
  "main_addCustomer_shortName n v w = Some (s, w1) \<Longrightarrow>
     same_tables w w1
     \<and> count_rows ''Customer_Short_Name''
          (where_rows ''Customer_Short_Name'' (SqlText s) (table_rows (db w) ''Customers'')) = 0
     \<and> (\<exists>pre. log w1 = log w @ pre \<and> (\<forall>e \<in> set pre. event_sql e \<noteq> Some InsertCustomer))"
proof (induction n arbitrary: v w)
  case 0
  then show ?case by simp
next
  case (Suc n)
  let ?w0 = "cout ''Please enter a unique customer short name, which can be used as an identifier.'' w"
  let ?entered = "fst (getline_ws v ?w0)"
  let ?r = "selectCount_where ''Customer_Short_Name'' ''Customers'' ''Customer_Short_Name''
              ?entered (snd (getline_ws v ?w0))"
  have t: "same_tables w (snd ?r)" by (simp add: same_tables_def frame)
  from selectCount_where_log[of "''Customer_Short_Name''" "''Customers''" "''Customer_Short_Name''"
         ?entered "snd (getline_ws v ?w0)"]
  obtain evs where evs: "log (snd ?r) = log w @ evs" "\<forall>e \<in> set evs. event_sql e \<noteq> Some InsertCustomer"
    by (auto simp: frame)
  show ?case
  proof (cases "fst ?r = 0")
    case True
    with Suc.prems have s: "s = ?entered" "w1 = snd ?r" by (auto simp: split_beta)
    from True selectCount_where_result[of "''Customer_Short_Name''" "''Customers''"
         "''Customer_Short_Name''" ?entered "snd (getline_ws v ?w0)"]
    have "count_rows ''Customer_Short_Name''
          (where_rows ''Customer_Short_Name'' (SqlText ?entered)
             (table_rows (db (snd (getline_ws v ?w0))) ''Customers'')) = 0"
      by simp
    then have "count_rows ''Customer_Short_Name''
          (where_rows ''Customer_Short_Name'' (SqlText s) (table_rows (db w) ''Customers'')) = 0"
      by (simp add: s table_rows_def frame)
    with t evs s show ?thesis by blast
  next
    case False
    let ?w2 = "cout ''Error: Short name already in table. Please use new name or amend existing record.'' (snd ?r)"
    from False Suc.prems have "main_addCustomer_shortName n ?entered ?w2 = Some (s, w1)"
      by (simp add: split_beta)
    from Suc.IH[OF this] obtain pre where
      ih: "same_tables ?w2 w1"
        "count_rows ''Customer_Short_Name''
          (where_rows ''Customer_Short_Name'' (SqlText s) (table_rows (db ?w2) ''Customers'')) = 0"
        "log w1 = log ?w2 @ pre" "\<forall>e \<in> set pre. event_sql e \<noteq> Some InsertCustomer"
      by blast
    have t2: "same_tables w ?w2" using t by simp
    have "log w1 = log w @ (evs @ pre)" using ih(3) evs(1) by (simp add: frame)
    moreover have "\<forall>e \<in> set (evs @ pre). event_sql e \<noteq> Some InsertCustomer"
      using evs(2) ih(4) by auto
    moreover have "count_rows ''Customer_Short_Name''
          (where_rows ''Customer_Short_Name'' (SqlText s) (table_rows (db w) ''Customers'')) = 0"
      using ih(2) table_rows_same[OF t2] by simp
    ultimately show ?thesis using same_tables_trans[OF t2 ih(1)] by blast
  qed
qed

text \<open>
  C3. When Add Customer returns, what it asked of the engine is first a run of count
  queries, none of them the insert, and then the prepare of the
  \<^verbatim>\<open>INSERT INTO Customers\<close> statement followed by the bind of a short name whose
  count in \<^verbatim>\<open>Customers\<close> is zero. One round of the loop with a short name that a
  row of \<^verbatim>\<open>Customers\<close> already has ends with a count that is not zero: the
  message is printed, the loop goes on to its next round (which prompts again), the
  tables are as before, and nothing was asked of the engine about the insert.
\<close>

theorem main_addCustomer_unique_short_name:
  "(main_addCustomer n w = Some w' \<longrightarrow>
      (\<exists>name pre st st1 post.
          log w' = log w @ pre @ Prepare InsertCustomer st # post
          \<and> (\<forall>e \<in> set pre. event_sql e \<noteq> Some InsertCustomer)
          \<and> count_rows ''Customer_Short_Name''
               (where_rows ''Customer_Short_Name'' (SqlText name) (table_rows (db w) ''Customers'')) = 0
          \<and> Bind (handle_of InsertCustomer st) 1 (SqlText name) st1 \<in> set post))
   \<and> ((\<exists>c \<in> set (Customers (db w)).
          Customer_Short_Name c = fst (getline_ws v
             (cout ''Please enter a unique customer short name, which can be used as an identifier.'' w)))
       \<longrightarrow>
       (let entered = fst (getline_ws v
               (cout ''Please enter a unique customer short name, which can be used as an identifier.'' w));
            r = selectCount_where ''Customer_Short_Name'' ''Customers'' ''Customer_Short_Name'' entered
                  (snd (getline_ws v
                     (cout ''Please enter a unique customer short name, which can be used as an identifier.'' w)));
            w2 = cout ''Error: Short name already in table. Please use new name or amend existing record.'' (snd r)
        in fst r \<noteq> 0
           \<and> main_addCustomer_shortName (Suc n) v w = main_addCustomer_shortName n entered w2
           \<and> same_tables w w2
           \<and> (\<exists>evs. log w2 = log w @ evs \<and> (\<forall>e \<in> set evs. event_sql e \<noteq> Some InsertCustomer))))"
proof (intro conjI impI)
  assume run: "main_addCustomer n w = Some w'"
  then obtain name w1 where
    nm: "main_addCustomer_shortName n [] w = Some (name, w1)"
    and ins: "main_addCustomer_insert n name w1 = Some w'"
    by (auto simp: main_addCustomer_def split: option.splits)
  from main_addCustomer_shortName_spec[OF nm] obtain pre where
    pre: "log w1 = log w @ pre" "\<forall>e \<in> set pre. event_sql e \<noteq> Some InsertCustomer"
    and cnt: "count_rows ''Customer_Short_Name''
               (where_rows ''Customer_Short_Name'' (SqlText name) (table_rows (db w) ''Customers'')) = 0"
    by blast
  from main_addCustomer_insert_log[OF ins] obtain st st1 rest where
    post: "log w' = log w1 @ Prepare InsertCustomer st
             # reported (st \<noteq> SQLITE_OK) ''Error preparing INSERT statement:''
             @ Bind (handle_of InsertCustomer st) 1 (SqlText name) st1 # rest"
    by auto
  let ?post = "reported (st \<noteq> SQLITE_OK) ''Error preparing INSERT statement:''
             @ Bind (handle_of InsertCustomer st) 1 (SqlText name) st1 # rest"
  have "log w' = log w @ pre @ Prepare InsertCustomer st # ?post"
    using post pre(1) by simp
  moreover have "Bind (handle_of InsertCustomer st) 1 (SqlText name) st1 \<in> set ?post" by simp
  ultimately show "\<exists>name pre st st1 post.
          log w' = log w @ pre @ Prepare InsertCustomer st # post
          \<and> (\<forall>e \<in> set pre. event_sql e \<noteq> Some InsertCustomer)
          \<and> count_rows ''Customer_Short_Name''
               (where_rows ''Customer_Short_Name'' (SqlText name) (table_rows (db w) ''Customers'')) = 0
          \<and> Bind (handle_of InsertCustomer st) 1 (SqlText name) st1 \<in> set post"
    using pre(2) cnt by blast
next
  let ?w0 = "cout ''Please enter a unique customer short name, which can be used as an identifier.'' w"
  let ?entered = "fst (getline_ws v ?w0)"
  let ?r = "selectCount_where ''Customer_Short_Name'' ''Customers'' ''Customer_Short_Name''
              ?entered (snd (getline_ws v ?w0))"
  let ?w2 = "cout ''Error: Short name already in table. Please use new name or amend existing record.'' (snd ?r)"
  assume ex: "\<exists>c \<in> set (Customers (db w)). Customer_Short_Name c = ?entered"
  then have "filter (\<lambda>c. Customer_Short_Name c = ?entered) (Customers (db w)) \<noteq> []"
    by (simp add: filter_empty_conv)
  then have pos: "0 < count_rows ''Customer_Short_Name''
          (where_rows ''Customer_Short_Name'' (SqlText ?entered)
             (table_rows (db (snd (getline_ws v ?w0))) ''Customers''))"
    by (simp add: count_short_name_col frame)
  with selectCount_where_result[of "''Customer_Short_Name''" "''Customers''"
         "''Customer_Short_Name''" ?entered "snd (getline_ws v ?w0)"]
  have nz: "fst ?r \<noteq> 0" by auto
  then have step: "main_addCustomer_shortName (Suc n) v w = main_addCustomer_shortName n ?entered ?w2"
    by (simp add: split_beta)
  have t: "same_tables w ?w2" by (simp add: same_tables_def frame)
  from selectCount_where_log[of "''Customer_Short_Name''" "''Customers''" "''Customer_Short_Name''"
         ?entered "snd (getline_ws v ?w0)"]
  have "\<exists>evs. log ?w2 = log w @ evs \<and> (\<forall>e \<in> set evs. event_sql e \<noteq> Some InsertCustomer)"
    by (auto simp: frame)
  with nz step t show "let entered = ?entered; r = selectCount_where ''Customer_Short_Name'' ''Customers'' ''Customer_Short_Name'' entered
                  (snd (getline_ws v ?w0));
            w2 = cout ''Error: Short name already in table. Please use new name or amend existing record.'' (snd r)
        in fst r \<noteq> 0
           \<and> main_addCustomer_shortName (Suc n) v w = main_addCustomer_shortName n entered w2
           \<and> same_tables w w2
           \<and> (\<exists>evs. log w2 = log w @ evs \<and> (\<forall>e \<in> set evs. event_sql e \<noteq> Some InsertCustomer))"
    unfolding Let_def by blast
qed


theorem main_addCustomer_unique_short_name_witness:
  "(\<exists>w' name pre st st1 post.
      main_addCustomer 3
        (sample_world (''JSMITH'' @ [newline] @ ''TESTER'' @ [newline] @ [newline] @ [newline]
                         @ [newline] @ ''100'' @ [newline] @ ''0'' @ [newline]) []) = Some w'
      \<and> log w' = pre @ Prepare InsertCustomer st # post
      \<and> Bind (handle_of InsertCustomer st) 1 (SqlText name) st1 \<in> set post)
   \<and> fst (selectCount_where ''Customer_Short_Name'' ''Customers'' ''Customer_Short_Name'' ''JSMITH''
            (snd (getline_ws []
               (cout ''Please enter a unique customer short name, which can be used as an identifier.''
                  (sample_world (''JSMITH'' @ [newline]) []))))) \<noteq> 0"
proof -
  let ?w = "sample_world (''JSMITH'' @ [newline] @ ''TESTER'' @ [newline] @ [newline] @ [newline]
                         @ [newline] @ ''100'' @ [newline] @ ''0'' @ [newline]) []"
  let ?w2 = "sample_world (''JSMITH'' @ [newline]) []"
  have "map_option (\<lambda>w. ()) (main_addCustomer 3 ?w) = Some ()"
    by code_simp
  then obtain w' where r: "main_addCustomer 3 ?w = Some w'"
    by auto
  have l: "log ?w = []" by (simp add: log_def sample_world_def)
  have e: "fst (getline_ws []
             (cout ''Please enter a unique customer short name, which can be used as an identifier.''
                ?w2)) = ''JSMITH''"
    by code_simp
  have c: "\<exists>c \<in> set (Customers (db ?w2)). Customer_Short_Name c = ''JSMITH''"
    by (simp add: sample_world_def sample_db_def sample_customer_def)
  from main_addCustomer_unique_short_name[of 3 ?w w' "[]", THEN conjunct1, rule_format, OF r]
  obtain name pre st st1 post where
    x: "log w' = log ?w @ pre @ Prepare InsertCustomer st # post"
      "Bind (handle_of InsertCustomer st) 1 (SqlText name) st1 \<in> set post"
    by blast
  from x(1) have "log w' = pre @ Prepare InsertCustomer st # post"
    unfolding l by simp
  with x(2) have a: "\<exists>name pre st st1 post. log w' = pre @ Prepare InsertCustomer st # post
      \<and> Bind (handle_of InsertCustomer st) 1 (SqlText name) st1 \<in> set post"
    by blast
  from main_addCustomer_unique_short_name[of 0 ?w2 ?w2 "[]", THEN conjunct2] c e
  have "fst (selectCount_where ''Customer_Short_Name'' ''Customers'' ''Customer_Short_Name'' ''JSMITH''
            (snd (getline_ws []
               (cout ''Please enter a unique customer short name, which can be used as an identifier.''
                  ?w2)))) \<noteq> 0"
    by (simp add: Let_def)
  with a r show ?thesis by blast
qed

section \<open>Failures of prepare and bind\<close>

lemma nested_log_bind_failure:
  assumes "nested_log q v m1 m2 m3 L" "Bind h i x st \<in> set L" "st \<noteq> SQLITE_OK"
  shows "L = [Prepare q SQLITE_OK, Bind (Some q) 1 v st, Cerr m2, Finalize (Some q)]"
  using assms by (auto simp: nested_log_def)

lemma nested_log_prepare_failure:
  assumes "nested_log q v m1 m2 m3 L" "Prepare q' st \<in> set L" "st \<noteq> SQLITE_OK"
  shows "L = [Prepare q st, Cerr m1, Finalize None]"
  using assms by (auto simp: nested_log_def)

lemma main_removeCustomer_log:
  assumes yes: "getYesNo n
                  (cout (''This command will delete all customer and address data associated with customer ''
                           @ deleteShortName) w) = Some (True, w1)"
  shows "\<exists>w' LA LC. main_removeCustomer n customerID deleteShortName w = Some w'
     \<and> log w' = log w @ LA @ LC
     \<and> nested_log DeleteAddresses (SqlInt customerID) ''Error preparing delete statement: ''
          ''Error binding Customer ID to statement: '' ''Error executing DELETE statement: '' LA
     \<and> nested_log DeleteCustomer (SqlInt customerID) ''Error preparing DELETE statement: ''
          ''Error binding Customer ID to statement: '' ''Error executing DELETE statement: '' LC"
proof -
  from getYesNo_frame[OF yes] have w1: "log w1 = log w"
    by (simp add: frame)
  define blkA where "blkA =
     (if fst (fst (sqlite3_prepare_v2 DeleteAddresses w1)) \<noteq> SQLITE_OK then
        (snd (fst (sqlite3_prepare_v2 DeleteAddresses w1)),
         cerr ''Error preparing delete statement: '' (snd (sqlite3_prepare_v2 DeleteAddresses w1)))
      else
        (case sqlite3_bind_int (snd (fst (sqlite3_prepare_v2 DeleteAddresses w1))) 1 customerID
                (snd (sqlite3_prepare_v2 DeleteAddresses w1)) of
           ((bindStatus, h1), w3) \<Rightarrow>
             if bindStatus \<noteq> SQLITE_OK then
               (h1, cerr ''Error binding Customer ID to statement: '' w3)
             else
               (case sqlite3_step h1 w3 of
                  ((stepStatus, h2), w4) \<Rightarrow>
                    (h2, if stepStatus \<noteq> SQLITE_DONE
                         then cerr ''Error executing DELETE statement: '' w4
                         else cout (''Addresses associated with customer ''
                                      @ deleteShortName @ '' deleted successfully.'') w4))))"
  define w5 where "w5 = sqlite3_finalize (fst blkA) (snd blkA)"
  define blkC where "blkC =
     (if fst (fst (sqlite3_prepare_v2 DeleteCustomer w5)) \<noteq> SQLITE_OK then
        (snd (fst (sqlite3_prepare_v2 DeleteCustomer w5)),
         cerr ''Error preparing DELETE statement: '' (snd (sqlite3_prepare_v2 DeleteCustomer w5)))
      else
        (case sqlite3_bind_int (snd (fst (sqlite3_prepare_v2 DeleteCustomer w5))) 1 customerID
                (snd (sqlite3_prepare_v2 DeleteCustomer w5)) of
           ((bindStatus, h1), w7) \<Rightarrow>
             if bindStatus \<noteq> SQLITE_OK then
               (h1, cerr ''Error binding Customer ID to statement: '' w7)
             else
               (case sqlite3_step h1 w7 of
                  ((stepStatus, h2), w8) \<Rightarrow>
                    (h2, if stepStatus \<noteq> SQLITE_DONE
                         then cerr ''Error executing DELETE statement: '' w8
                         else cout (''Customer data for '' @ deleteShortName
                                      @ '' deleted successfully.'') w8))))"
  define w' where "w' = sqlite3_finalize (fst blkC) (snd blkC)"
  have run: "main_removeCustomer n customerID deleteShortName w = Some w'"
    by (simp only: main_removeCustomer_def yes option.case split_beta fst_conv snd_conv if_True
          w'_def blkC_def w5_def blkA_def)
  have ns: "\<not> is_select DeleteAddresses" "\<not> is_select DeleteCustomer" by simp_all
  have "\<exists>LA. log w5 = log w1 @ LA
      \<and> nested_log DeleteAddresses (SqlInt customerID) ''Error preparing delete statement: ''
          ''Error binding Customer ID to statement: '' ''Error executing DELETE statement: '' LA"
    using nested_statement[OF blkA_def w5_def ns(1)] unfolding nested_log_def
    by (elim disjE exE conjE) simp_all
  then obtain LA where A: "log w5 = log w1 @ LA"
      "nested_log DeleteAddresses (SqlInt customerID) ''Error preparing delete statement: ''
          ''Error binding Customer ID to statement: '' ''Error executing DELETE statement: '' LA"
    by (elim exE conjE)
  have "\<exists>LC. log w' = log w5 @ LC
      \<and> nested_log DeleteCustomer (SqlInt customerID) ''Error preparing DELETE statement: ''
          ''Error binding Customer ID to statement: '' ''Error executing DELETE statement: '' LC"
    using nested_statement[OF blkC_def w'_def ns(2)] unfolding nested_log_def
    by (elim disjE exE conjE) simp_all
  then obtain LC where C: "log w' = log w5 @ LC"
      "nested_log DeleteCustomer (SqlInt customerID) ''Error preparing DELETE statement: ''
          ''Error binding Customer ID to statement: '' ''Error executing DELETE statement: '' LC"
    by (elim exE conjE)
  have "log w' = log w @ LA @ LC" unfolding C(1) A(1) w1 by simp
  with run A(2) C(2) show ?thesis by (intro exI conjI)
qed

lemma selectCount_where_bind_failure:
  assumes "fst (fst (sqlite3_prepare_v2 (SelectCountWhere c t cc) w)) = SQLITE_OK"
    and "fst (fst (sqlite3_bind_text (snd (fst (sqlite3_prepare_v2 (SelectCountWhere c t cc) w))) 1 v
                 (snd (sqlite3_prepare_v2 (SelectCountWhere c t cc) w)))) \<noteq> SQLITE_OK"
  shows "\<exists>st. st \<noteq> SQLITE_OK \<and> log (snd (selectCount_where c t cc v w)) =
           log w @ [Prepare (SelectCountWhere c t cc) SQLITE_OK,
                    Bind (Some (SelectCountWhere c t cc)) 1 (SqlText v) st,
                    Cerr ''Error binding column name to SELECT COUNT statement: '',
                    Finalize (Some (SelectCountWhere c t cc))]
         \<and> fst (selectCount_where c t cc v w) = - 1"
  using assms
  by (simp add: selectCount_where_def split_beta frame sqlite3_bind_text_def prepare_handle fresh_def)

lemma selectCount_where_prepare_failure:
  assumes "fst (fst (sqlite3_prepare_v2 (SelectCountWhere c t cc) w)) \<noteq> SQLITE_OK"
  shows "\<exists>st. st \<noteq> SQLITE_OK \<and> log (snd (selectCount_where c t cc v w)) =
           log w @ [Prepare (SelectCountWhere c t cc) st,
                    Cerr ''Error preparing SELECT COUNT statement: '',
                    Finalize None]
         \<and> fst (selectCount_where c t cc v w) = - 1"
  using assms
  by (simp add: selectCount_where_def split_beta frame prepare_handle)

lemma calls_frame [frame]:
  "calls (cout m w) = calls w"
  "calls (cerr m w) = calls w"
  "calls (sqlite3_finalize h w) = calls w @ [Finalize (map_option sql h)]"
  "calls (snd (sqlite3_prepare_v2 q w)) = calls w @ [Prepare q (fst (fst (sqlite3_prepare_v2 q w)))]"
  "calls (snd (sqlite3_bind h i v w)) =
     calls w @ [Bind (map_option sql h) i v (fst (fst (sqlite3_bind h i v w)))]"
  "calls (snd (sqlite3_step h w)) = calls w @ [Step (map_option sql h) (fst (fst (sqlite3_step h w)))]"
  by (simp_all add: calls_def frame)

lemma main_removeAddress_prepare_failure:
  assumes g: "getAddressID n deleteShortName w = Some (addressID, w1)"
    and a: "addressID \<noteq> - 2" "addressID \<noteq> - 1"
    and y: "getYesNo n
                    (cout (''This statement will delete address '' @ to_string addressID
                             @ '' from the database. Would you like to proceed? [y/n]'') w1)
             = Some (True, w2)"
    and p: "fst (fst (sqlite3_prepare_v2 DeleteAddress w2)) \<noteq> SQLITE_OK"
  shows "\<exists>w' st. main_removeAddress n deleteShortName w = Some w' \<and> st \<noteq> SQLITE_OK
     \<and> calls w' = calls w2 @ [Prepare DeleteAddress st, Finalize None]
     \<and> same_tables w2 w'"
  using p
  apply (simp only: main_removeAddress_def g option.case prod.case a if_False y if_True)
  apply (simp add: split_beta prepare_handle frame same_tables_def)
  done


lemma selectCount_prepare_failure:
  assumes "fst (fst (sqlite3_prepare_v2 (SelectCount c t) w)) \<noteq> SQLITE_OK"
  shows "\<exists>st. st \<noteq> SQLITE_OK \<and> log (snd (selectCount c t w)) =
           log w @ [Prepare (SelectCount c t) st,
                    Cerr ''Error preparing SELECT COUNT statement: '',
                    Finalize None]
         \<and> fst (selectCount c t w) = - 1"
  using assms
  by (simp add: selectCount_def split_beta frame prepare_handle)

lemma nested_log_head:
  "nested_log q v m1 m2 m3 L \<Longrightarrow>
     (\<exists>st rest. L = Prepare q st # rest) \<and> (\<forall>e \<in> set L. event_sql e = None \<or> event_sql e = Some q)"
  by (auto simp: nested_log_def)

text \<open>
  The line of Remove Address (single) that reports a failed prepare cannot be reached:
  it stands under the test that the handle is not null, and a failed prepare leaves
  the null handle. Nothing is written to \<^verbatim>\<open>std::cerr\<close> then.
\<close>

lemma main_removeAddress_prepare_failure_log:
  assumes g: "getAddressID n deleteShortName w = Some (addressID, w1)"
    and a: "addressID \<noteq> - 2" "addressID \<noteq> - 1"
    and y: "getYesNo n
                    (cout (''This statement will delete address '' @ to_string addressID
                             @ '' from the database. Would you like to proceed? [y/n]'') w1)
             = Some (True, w2)"
    and p: "fst (fst (sqlite3_prepare_v2 DeleteAddress w2)) \<noteq> SQLITE_OK"
  shows "\<exists>w' st. main_removeAddress n deleteShortName w = Some w'
     \<and> log w' = log w2 @ [Prepare DeleteAddress st, Finalize None]"
  using p
  apply (simp only: main_removeAddress_def g option.case prod.case a if_False y if_True)
  apply (simp add: split_beta prepare_handle frame)
  done


text \<open>
  C7. A failed bind is reported on \<^verbatim>\<open>std::cerr\<close>. In the conditional
  \<^verbatim>\<open>selectCount\<close> overload and in each of the two DELETE statements of Remove Customer
  the statement is then finalized with no step in between. In the INSERT of Add Customer
  every bind is followed by the next call whatever its status, and the step is always
  made before the finalize.
\<close>

theorem bind_failure_by_operation:
  "(fst (fst (sqlite3_prepare_v2 (SelectCountWhere c t cc) w)) = SQLITE_OK
      \<and> fst (fst (sqlite3_bind_text (snd (fst (sqlite3_prepare_v2 (SelectCountWhere c t cc) w))) 1 v
                    (snd (sqlite3_prepare_v2 (SelectCountWhere c t cc) w)))) \<noteq> SQLITE_OK
    \<longrightarrow> (\<exists>st. st \<noteq> SQLITE_OK \<and> log (snd (selectCount_where c t cc v w)) =
           log w @ [Prepare (SelectCountWhere c t cc) SQLITE_OK,
                    Bind (Some (SelectCountWhere c t cc)) 1 (SqlText v) st,
                    Cerr ''Error binding column name to SELECT COUNT statement: '',
                    Finalize (Some (SelectCountWhere c t cc))]))
   \<and> (getYesNo n
         (cout (''This command will delete all customer and address data associated with customer ''
                  @ deleteShortName) w) = Some (True, w1)
       \<longrightarrow> (\<exists>w' stA restA stC restC.
              main_removeCustomer n customerID deleteShortName w = Some w'
            \<and> log w' = log w @ (Prepare DeleteAddresses stA # restA) @ (Prepare DeleteCustomer stC # restC)
            \<and> (\<forall>h i x st. Bind h i x st \<in> set restA \<and> st \<noteq> SQLITE_OK \<longrightarrow>
                  stA = SQLITE_OK
                  \<and> restA = [Bind (Some DeleteAddresses) 1 (SqlInt customerID) st,
                             Cerr ''Error binding Customer ID to statement: '',
                             Finalize (Some DeleteAddresses)])
            \<and> (\<forall>h i x st. Bind h i x st \<in> set restC \<and> st \<noteq> SQLITE_OK \<longrightarrow>
                  stC = SQLITE_OK
                  \<and> restC = [Bind (Some DeleteCustomer) 1 (SqlInt customerID) st,
                             Cerr ''Error binding Customer ID to statement: '',
                             Finalize (Some DeleteCustomer)])))
   \<and> (main_addCustomer_insert n name w = Some w2
       \<longrightarrow> (\<exists>st0 st1 ms2 v2 st2 ms3 v3 st3 ms4 v4 st4 i5 st5 i6 st6 ss.
             log w2 = log w
               @ Prepare InsertCustomer st0
                   # reported (st0 \<noteq> SQLITE_OK) ''Error preparing INSERT statement:''
               @ Bind (handle_of InsertCustomer st0) 1 (SqlText name) st1
                   # reported (st1 \<noteq> SQLITE_OK) ''Error binding short name to statement:''
               @ map Cerr ms2 @ Bind (handle_of InsertCustomer st0) 2 v2 st2
                   # reported (st2 \<noteq> SQLITE_OK)
                       (''Error binding '' @ ''Customer First Name'' @ '' to statement : '')
               @ map Cerr ms3 @ Bind (handle_of InsertCustomer st0) 3 v3 st3
                   # reported (st3 \<noteq> SQLITE_OK)
                       (''Error binding '' @ ''Customer Surname'' @ '' to statement : '')
               @ map Cerr ms4 @ Bind (handle_of InsertCustomer st0) 4 v4 st4
                   # reported (st4 \<noteq> SQLITE_OK)
                       (''Error binding '' @ ''Customer Group Name'' @ '' to statement : '')
               @ Bind (handle_of InsertCustomer st0) 5 (SqlInt i5) st5
                   # reported (st5 \<noteq> SQLITE_OK) ''Error binding credit limit to statement:''
               @ Bind (handle_of InsertCustomer st0) 6 (SqlInt i6) st6
                   # reported (st6 \<noteq> SQLITE_OK) ''Error binding outstanding balance to statement:''
               @ Step (handle_of InsertCustomer st0) ss
                   # reported (ss \<noteq> SQLITE_DONE) ''Error executing statement:''
               @ [Finalize (handle_of InsertCustomer st0)]))"
proof (intro conjI impI)
  assume "fst (fst (sqlite3_prepare_v2 (SelectCountWhere c t cc) w)) = SQLITE_OK
      \<and> fst (fst (sqlite3_bind_text (snd (fst (sqlite3_prepare_v2 (SelectCountWhere c t cc) w))) 1 v
                    (snd (sqlite3_prepare_v2 (SelectCountWhere c t cc) w)))) \<noteq> SQLITE_OK"
  then show "\<exists>st. st \<noteq> SQLITE_OK \<and> log (snd (selectCount_where c t cc v w)) =
           log w @ [Prepare (SelectCountWhere c t cc) SQLITE_OK,
                    Bind (Some (SelectCountWhere c t cc)) 1 (SqlText v) st,
                    Cerr ''Error binding column name to SELECT COUNT statement: '',
                    Finalize (Some (SelectCountWhere c t cc))]"
    using selectCount_where_bind_failure[of c t cc w v] by blast
next
  assume yes: "getYesNo n
         (cout (''This command will delete all customer and address data associated with customer ''
                  @ deleteShortName) w) = Some (True, w1)"
  from main_removeCustomer_log[OF yes, of customerID] obtain w' LA LC where
    r: "main_removeCustomer n customerID deleteShortName w = Some w'"
    and l: "log w' = log w @ LA @ LC"
    and A: "nested_log DeleteAddresses (SqlInt customerID) ''Error preparing delete statement: ''
          ''Error binding Customer ID to statement: '' ''Error executing DELETE statement: '' LA"
    and C: "nested_log DeleteCustomer (SqlInt customerID) ''Error preparing DELETE statement: ''
          ''Error binding Customer ID to statement: '' ''Error executing DELETE statement: '' LC"
    by blast
  from nested_log_head[OF A] obtain stA restA where LA: "LA = Prepare DeleteAddresses stA # restA"
    by blast
  from nested_log_head[OF C] obtain stC restC where LC: "LC = Prepare DeleteCustomer stC # restC"
    by blast
  have a: "stA = SQLITE_OK \<and> restA = [Bind (Some DeleteAddresses) 1 (SqlInt customerID) st,
                             Cerr ''Error binding Customer ID to statement: '',
                             Finalize (Some DeleteAddresses)]"
    if "Bind h i x st \<in> set restA \<and> st \<noteq> SQLITE_OK" for h i x st
    using nested_log_bind_failure[OF A, of h i x st] that by (simp add: LA)
  have c: "stC = SQLITE_OK \<and> restC = [Bind (Some DeleteCustomer) 1 (SqlInt customerID) st,
                             Cerr ''Error binding Customer ID to statement: '',
                             Finalize (Some DeleteCustomer)]"
    if "Bind h i x st \<in> set restC \<and> st \<noteq> SQLITE_OK" for h i x st
    using nested_log_bind_failure[OF C, of h i x st] that by (simp add: LC)
  from r l a c show "\<exists>w' stA restA stC restC.
              main_removeCustomer n customerID deleteShortName w = Some w'
            \<and> log w' = log w @ (Prepare DeleteAddresses stA # restA) @ (Prepare DeleteCustomer stC # restC)
            \<and> (\<forall>h i x st. Bind h i x st \<in> set restA \<and> st \<noteq> SQLITE_OK \<longrightarrow>
                  stA = SQLITE_OK
                  \<and> restA = [Bind (Some DeleteAddresses) 1 (SqlInt customerID) st,
                             Cerr ''Error binding Customer ID to statement: '',
                             Finalize (Some DeleteAddresses)])
            \<and> (\<forall>h i x st. Bind h i x st \<in> set restC \<and> st \<noteq> SQLITE_OK \<longrightarrow>
                  stC = SQLITE_OK
                  \<and> restC = [Bind (Some DeleteCustomer) 1 (SqlInt customerID) st,
                             Cerr ''Error binding Customer ID to statement: '',
                             Finalize (Some DeleteCustomer)])"
    unfolding LA LC by blast
next
  assume "main_addCustomer_insert n name w = Some w2"
  then show "\<exists>st0 st1 ms2 v2 st2 ms3 v3 st3 ms4 v4 st4 i5 st5 i6 st6 ss.
             log w2 = log w
               @ Prepare InsertCustomer st0
                   # reported (st0 \<noteq> SQLITE_OK) ''Error preparing INSERT statement:''
               @ Bind (handle_of InsertCustomer st0) 1 (SqlText name) st1
                   # reported (st1 \<noteq> SQLITE_OK) ''Error binding short name to statement:''
               @ map Cerr ms2 @ Bind (handle_of InsertCustomer st0) 2 v2 st2
                   # reported (st2 \<noteq> SQLITE_OK)
                       (''Error binding '' @ ''Customer First Name'' @ '' to statement : '')
               @ map Cerr ms3 @ Bind (handle_of InsertCustomer st0) 3 v3 st3
                   # reported (st3 \<noteq> SQLITE_OK)
                       (''Error binding '' @ ''Customer Surname'' @ '' to statement : '')
               @ map Cerr ms4 @ Bind (handle_of InsertCustomer st0) 4 v4 st4
                   # reported (st4 \<noteq> SQLITE_OK)
                       (''Error binding '' @ ''Customer Group Name'' @ '' to statement : '')
               @ Bind (handle_of InsertCustomer st0) 5 (SqlInt i5) st5
                   # reported (st5 \<noteq> SQLITE_OK) ''Error binding credit limit to statement:''
               @ Bind (handle_of InsertCustomer st0) 6 (SqlInt i6) st6
                   # reported (st6 \<noteq> SQLITE_OK) ''Error binding outstanding balance to statement:''
               @ Step (handle_of InsertCustomer st0) ss
                   # reported (ss \<noteq> SQLITE_DONE) ''Error executing statement:''
               @ [Finalize (handle_of InsertCustomer st0)]"
    by (rule main_addCustomer_insert_log)
qed



text \<open>
  With a bind that fails, the count query and the first DELETE of Remove Customer make
  no step call.
\<close>

theorem bind_failure_skips_step_counterexample:
  "log (snd (selectCount_where ''*'' ''Customers'' ''Customer_Short_Name'' ''JSMITH''
               (sample_world [] [False, True])))
     = [Prepare (SelectCountWhere ''*'' ''Customers'' ''Customer_Short_Name'') SQLITE_OK,
        Bind (Some (SelectCountWhere ''*'' ''Customers'' ''Customer_Short_Name'')) 1
             (SqlText ''JSMITH'') SQLITE_ERROR,
        Cerr ''Error binding column name to SELECT COUNT statement: '',
        Finalize (Some (SelectCountWhere ''*'' ''Customers'' ''Customer_Short_Name''))]
   \<and> filter is_step
         (trace (snd (selectCount_where ''*'' ''Customers'' ''Customer_Short_Name'' ''JSMITH''
                        (sample_world [] [False, True])))) = []
   \<and> map_option log (main_removeCustomer 2 1 ''JSMITH'' (sample_world (''y'' @ [newline]) [False, True]))
     = Some [Prepare DeleteAddresses SQLITE_OK,
             Bind (Some DeleteAddresses) 1 (SqlInt 1) SQLITE_ERROR,
             Cerr ''Error binding Customer ID to statement: '',
             Finalize (Some DeleteAddresses),
             Prepare DeleteCustomer SQLITE_OK,
             Bind (Some DeleteCustomer) 1 (SqlInt 1) SQLITE_OK,
             Step (Some DeleteCustomer) SQLITE_DONE,
             Finalize (Some DeleteCustomer)]"
  by code_simp


theorem bind_failure_by_operation_witness:
  "(\<exists>st. st \<noteq> SQLITE_OK
       \<and> log (snd (selectCount_where ''*'' ''Customers'' ''Customer_Short_Name'' ''JSMITH''
                      (sample_world [] [False, True])))
         = [Prepare (SelectCountWhere ''*'' ''Customers'' ''Customer_Short_Name'') SQLITE_OK,
            Bind (Some (SelectCountWhere ''*'' ''Customers'' ''Customer_Short_Name'')) 1
                 (SqlText ''JSMITH'') st,
            Cerr ''Error binding column name to SELECT COUNT statement: '',
            Finalize (Some (SelectCountWhere ''*'' ''Customers'' ''Customer_Short_Name''))])
   \<and> (\<exists>w' restA stC restC.
         main_removeCustomer 2 1 ''JSMITH'' (sample_world (''y'' @ [newline]) [False, True]) = Some w'
       \<and> log w' = Prepare DeleteAddresses SQLITE_OK # restA @ Prepare DeleteCustomer stC # restC
       \<and> Bind (Some DeleteAddresses) 1 (SqlInt 1) SQLITE_ERROR \<in> set restA
       \<and> restA = [Bind (Some DeleteAddresses) 1 (SqlInt 1) SQLITE_ERROR,
                  Cerr ''Error binding Customer ID to statement: '',
                  Finalize (Some DeleteAddresses)])
   \<and> (\<exists>w2 st0 ss.
         main_addCustomer_insert 2 ''TESTER''
           (sample_world ([newline] @ [newline] @ [newline] @ ''100'' @ [newline] @ ''0'' @ [newline])
              [False, True]) = Some w2
       \<and> Step (handle_of InsertCustomer st0) ss \<in> set (log w2))"
proof (intro conjI)
  have "fst (fst (sqlite3_prepare_v2 (SelectCountWhere ''*'' ''Customers'' ''Customer_Short_Name'')
                    (sample_world [] [False, True]))) = SQLITE_OK
      \<and> fst (fst (sqlite3_bind_text
                    (snd (fst (sqlite3_prepare_v2
                                 (SelectCountWhere ''*'' ''Customers'' ''Customer_Short_Name'')
                                 (sample_world [] [False, True])))) 1 ''JSMITH''
                    (snd (sqlite3_prepare_v2
                            (SelectCountWhere ''*'' ''Customers'' ''Customer_Short_Name'')
                            (sample_world [] [False, True]))))) \<noteq> SQLITE_OK"
    by code_simp
  moreover have "log (sample_world [] [False, True]) = []"
    by code_simp
  ultimately show "\<exists>st. st \<noteq> SQLITE_OK
       \<and> log (snd (selectCount_where ''*'' ''Customers'' ''Customer_Short_Name'' ''JSMITH''
                      (sample_world [] [False, True])))
         = [Prepare (SelectCountWhere ''*'' ''Customers'' ''Customer_Short_Name'') SQLITE_OK,
            Bind (Some (SelectCountWhere ''*'' ''Customers'' ''Customer_Short_Name'')) 1
                 (SqlText ''JSMITH'') st,
            Cerr ''Error binding column name to SELECT COUNT statement: '',
            Finalize (Some (SelectCountWhere ''*'' ''Customers'' ''Customer_Short_Name''))]"
    using bind_failure_by_operation
            [of "''*''" "''Customers''" "''Customer_Short_Name''" "sample_world [] [False, True]"
                "''JSMITH''", THEN conjunct1]
    by simp
next
  have "map_option fst
          (getYesNo 2
             (cout (''This command will delete all customer and address data associated with customer ''
                      @ ''JSMITH'') (sample_world (''y'' @ [newline]) [False, True]))) = Some True"
    by code_simp
  then obtain w1 where
    yes: "getYesNo 2
             (cout (''This command will delete all customer and address data associated with customer ''
                      @ ''JSMITH'') (sample_world (''y'' @ [newline]) [False, True])) = Some (True, w1)"
    by auto
  from bind_failure_by_operation[THEN conjunct2, THEN conjunct1, rule_format, OF yes, of 1]
  obtain w' stA restA stC restC where
    r: "main_removeCustomer 2 1 ''JSMITH'' (sample_world (''y'' @ [newline]) [False, True]) = Some w'"
    and l: "log w' = log (sample_world (''y'' @ [newline]) [False, True])
                       @ (Prepare DeleteAddresses stA # restA) @ (Prepare DeleteCustomer stC # restC)"
    and a: "\<forall>h i x st. Bind h i x st \<in> set restA \<and> st \<noteq> SQLITE_OK \<longrightarrow>
                  stA = SQLITE_OK
                  \<and> restA = [Bind (Some DeleteAddresses) 1 (SqlInt 1) st,
                             Cerr ''Error binding Customer ID to statement: '',
                             Finalize (Some DeleteAddresses)]"
    and c: "\<forall>h i x st. Bind h i x st \<in> set restC \<and> st \<noteq> SQLITE_OK \<longrightarrow>
                  stC = SQLITE_OK
                  \<and> restC = [Bind (Some DeleteCustomer) 1 (SqlInt 1) st,
                             Cerr ''Error binding Customer ID to statement: '',
                             Finalize (Some DeleteCustomer)]"
    by (elim exE conjE) (rule that, assumption+)
  have "map_option log (main_removeCustomer 2 1 ''JSMITH'' (sample_world (''y'' @ [newline]) [False, True]))
     = Some [Prepare DeleteAddresses SQLITE_OK,
             Bind (Some DeleteAddresses) 1 (SqlInt 1) SQLITE_ERROR,
             Cerr ''Error binding Customer ID to statement: '',
             Finalize (Some DeleteAddresses),
             Prepare DeleteCustomer SQLITE_OK,
             Bind (Some DeleteCustomer) 1 (SqlInt 1) SQLITE_OK,
             Step (Some DeleteCustomer) SQLITE_DONE,
             Finalize (Some DeleteCustomer)]"
    by code_simp
  moreover have "log (sample_world (''y'' @ [newline]) [False, True]) = []"
    by code_simp
  ultimately have e: "Prepare DeleteAddresses stA # restA @ Prepare DeleteCustomer stC # restC
     = [Prepare DeleteAddresses SQLITE_OK,
             Bind (Some DeleteAddresses) 1 (SqlInt 1) SQLITE_ERROR,
             Cerr ''Error binding Customer ID to statement: '',
             Finalize (Some DeleteAddresses),
             Prepare DeleteCustomer SQLITE_OK,
             Bind (Some DeleteCustomer) 1 (SqlInt 1) SQLITE_OK,
             Step (Some DeleteCustomer) SQLITE_DONE,
             Finalize (Some DeleteCustomer)]"
    using r l by simp
  then have s: "stA = SQLITE_OK"
    and m: "Bind (Some DeleteAddresses) 1 (SqlInt 1) SQLITE_ERROR \<in> set restA"
    by (cases restA; simp)+
  from a m have "restA = [Bind (Some DeleteAddresses) 1 (SqlInt 1) SQLITE_ERROR,
                  Cerr ''Error binding Customer ID to statement: '',
                  Finalize (Some DeleteAddresses)]"
    by blast
  with r l s m show "\<exists>w' restA stC restC.
         main_removeCustomer 2 1 ''JSMITH'' (sample_world (''y'' @ [newline]) [False, True]) = Some w'
       \<and> log w' = Prepare DeleteAddresses SQLITE_OK # restA @ Prepare DeleteCustomer stC # restC
       \<and> Bind (Some DeleteAddresses) 1 (SqlInt 1) SQLITE_ERROR \<in> set restA
       \<and> restA = [Bind (Some DeleteAddresses) 1 (SqlInt 1) SQLITE_ERROR,
                  Cerr ''Error binding Customer ID to statement: '',
                  Finalize (Some DeleteAddresses)]"
    using \<open>log (sample_world (''y'' @ [newline]) [False, True]) = []\<close> by auto
next
  have "map_option (\<lambda>w. ())
          (main_addCustomer_insert 2 ''TESTER''
             (sample_world ([newline] @ [newline] @ [newline] @ ''100'' @ [newline] @ ''0'' @ [newline])
                [False, True])) = Some ()"
    by code_simp
  then obtain w2 where
    r: "main_addCustomer_insert 2 ''TESTER''
          (sample_world ([newline] @ [newline] @ [newline] @ ''100'' @ [newline] @ ''0'' @ [newline])
             [False, True]) = Some w2"
    by auto
  from bind_failure_by_operation[THEN conjunct2, THEN conjunct2, rule_format, OF r]
  show "\<exists>w2 st0 ss.
         main_addCustomer_insert 2 ''TESTER''
           (sample_world ([newline] @ [newline] @ [newline] @ ''100'' @ [newline] @ ''0'' @ [newline])
              [False, True]) = Some w2
       \<and> Step (handle_of InsertCustomer st0) ss \<in> set (log w2)"
    apply (elim exE)
    subgoal for st0 st1 ms2 v2 st2 ms3 v3 st3 ms4 v4 st4 i5 st5 i6 st6 ss
      apply (rule exI[of _ w2], rule exI[of _ st0], rule exI[of _ ss])
      apply (rule conjI[OF r])
      apply simp
      done
    done
qed

text \<open>
  C8. A failed prepare is reported on \<^verbatim>\<open>std::cerr\<close> by both \<^verbatim>\<open>selectCount\<close>
  overloads, by each of the two DELETE statements of Remove Customer and by the INSERT
  of Add Customer. The count queries and the statements of Remove Customer then make
  no bind and no step call and finalize the null handle. Add Customer goes on: every
  bind and the step are called on the null handle before the finalize. Remove Address
  (single) makes no bind and no step call after a failed prepare and finalizes the
  null handle.
\<close>

theorem prepare_failure_by_operation:
  "(fst (fst (sqlite3_prepare_v2 (SelectCount c t) w)) \<noteq> SQLITE_OK
     \<longrightarrow> (\<exists>st. st \<noteq> SQLITE_OK \<and> log (snd (selectCount c t w)) =
           log w @ [Prepare (SelectCount c t) st,
                    Cerr ''Error preparing SELECT COUNT statement: '',
                    Finalize None]))
   \<and> (fst (fst (sqlite3_prepare_v2 (SelectCountWhere c t cc) w)) \<noteq> SQLITE_OK
     \<longrightarrow> (\<exists>st. st \<noteq> SQLITE_OK \<and> log (snd (selectCount_where c t cc v w)) =
           log w @ [Prepare (SelectCountWhere c t cc) st,
                    Cerr ''Error preparing SELECT COUNT statement: '',
                    Finalize None]))
   \<and> (getYesNo n
         (cout (''This command will delete all customer and address data associated with customer ''
                  @ deleteShortName) w) = Some (True, w1)
       \<longrightarrow> (\<exists>w' stA restA stC restC.
              main_removeCustomer n customerID deleteShortName w = Some w'
            \<and> log w' = log w @ (Prepare DeleteAddresses stA # restA) @ (Prepare DeleteCustomer stC # restC)
            \<and> (stA \<noteq> SQLITE_OK \<longrightarrow>
                  restA = [Cerr ''Error preparing delete statement: '', Finalize None])
            \<and> (stC \<noteq> SQLITE_OK \<longrightarrow>
                  restC = [Cerr ''Error preparing DELETE statement: '', Finalize None])))
   \<and> (main_addCustomer_insert n name w = Some w2
       \<longrightarrow> (\<exists>st0 rest.
             log w2 = log w @ Prepare InsertCustomer st0 # rest
           \<and> (st0 \<noteq> SQLITE_OK \<longrightarrow>
               (\<exists>st1 ms2 v2 st2 ms3 v3 st3 ms4 v4 st4 i5 st5 i6 st6 ss.
                 rest = Cerr ''Error preparing INSERT statement:''
                   # Bind None 1 (SqlText name) st1
                   # reported (st1 \<noteq> SQLITE_OK) ''Error binding short name to statement:''
                   @ map Cerr ms2 @ Bind None 2 v2 st2
                   # reported (st2 \<noteq> SQLITE_OK)
                       (''Error binding '' @ ''Customer First Name'' @ '' to statement : '')
                   @ map Cerr ms3 @ Bind None 3 v3 st3
                   # reported (st3 \<noteq> SQLITE_OK)
                       (''Error binding '' @ ''Customer Surname'' @ '' to statement : '')
                   @ map Cerr ms4 @ Bind None 4 v4 st4
                   # reported (st4 \<noteq> SQLITE_OK)
                       (''Error binding '' @ ''Customer Group Name'' @ '' to statement : '')
                   @ Bind None 5 (SqlInt i5) st5
                   # reported (st5 \<noteq> SQLITE_OK) ''Error binding credit limit to statement:''
                   @ Bind None 6 (SqlInt i6) st6
                   # reported (st6 \<noteq> SQLITE_OK) ''Error binding outstanding balance to statement:''
                   @ Step None ss
                   # reported (ss \<noteq> SQLITE_DONE) ''Error executing statement:''
                   @ [Finalize None]))))
   \<and> (getAddressID n deleteShortName w = Some (addressID, w3)
        \<and> addressID \<noteq> - 2 \<and> addressID \<noteq> - 1
        \<and> getYesNo n
                    (cout (''This statement will delete address '' @ to_string addressID
                             @ '' from the database. Would you like to proceed? [y/n]'') w3)
             = Some (True, w4)
        \<and> fst (fst (sqlite3_prepare_v2 DeleteAddress w4)) \<noteq> SQLITE_OK
       \<longrightarrow> (\<exists>w' st. main_removeAddress n deleteShortName w = Some w'
              \<and> st \<noteq> SQLITE_OK
              \<and> calls w' = calls w4 @ [Prepare DeleteAddress st, Finalize None]))"
proof (intro conjI impI)
  assume "fst (fst (sqlite3_prepare_v2 (SelectCount c t) w)) \<noteq> SQLITE_OK"
  from selectCount_prepare_failure[OF this]
  show "\<exists>st. st \<noteq> SQLITE_OK \<and> log (snd (selectCount c t w)) =
           log w @ [Prepare (SelectCount c t) st,
                    Cerr ''Error preparing SELECT COUNT statement: '',
                    Finalize None]"
    by blast
next
  assume "fst (fst (sqlite3_prepare_v2 (SelectCountWhere c t cc) w)) \<noteq> SQLITE_OK"
  from selectCount_where_prepare_failure[OF this, of v]
  show "\<exists>st. st \<noteq> SQLITE_OK \<and> log (snd (selectCount_where c t cc v w)) =
           log w @ [Prepare (SelectCountWhere c t cc) st,
                    Cerr ''Error preparing SELECT COUNT statement: '',
                    Finalize None]"
    by blast
next
  assume yes: "getYesNo n
         (cout (''This command will delete all customer and address data associated with customer ''
                  @ deleteShortName) w) = Some (True, w1)"
  from main_removeCustomer_log[OF yes, of customerID] obtain w' LA LC where
    r: "main_removeCustomer n customerID deleteShortName w = Some w'"
    and l: "log w' = log w @ LA @ LC"
    and A: "nested_log DeleteAddresses (SqlInt customerID) ''Error preparing delete statement: ''
          ''Error binding Customer ID to statement: '' ''Error executing DELETE statement: '' LA"
    and C: "nested_log DeleteCustomer (SqlInt customerID) ''Error preparing DELETE statement: ''
          ''Error binding Customer ID to statement: '' ''Error executing DELETE statement: '' LC"
    by blast
  from nested_log_head[OF A] obtain stA restA where LA: "LA = Prepare DeleteAddresses stA # restA"
    by blast
  from nested_log_head[OF C] obtain stC restC where LC: "LC = Prepare DeleteCustomer stC # restC"
    by blast
  have a: "restA = [Cerr ''Error preparing delete statement: '', Finalize None]"
    if "stA \<noteq> SQLITE_OK"
    using nested_log_prepare_failure[OF A, of DeleteAddresses stA] that by (simp add: LA)
  have c: "restC = [Cerr ''Error preparing DELETE statement: '', Finalize None]"
    if "stC \<noteq> SQLITE_OK"
    using nested_log_prepare_failure[OF C, of DeleteCustomer stC] that by (simp add: LC)
  from r l a c show "\<exists>w' stA restA stC restC.
              main_removeCustomer n customerID deleteShortName w = Some w'
            \<and> log w' = log w @ (Prepare DeleteAddresses stA # restA) @ (Prepare DeleteCustomer stC # restC)
            \<and> (stA \<noteq> SQLITE_OK \<longrightarrow>
                  restA = [Cerr ''Error preparing delete statement: '', Finalize None])
            \<and> (stC \<noteq> SQLITE_OK \<longrightarrow>
                  restC = [Cerr ''Error preparing DELETE statement: '', Finalize None])"
    unfolding LA LC by blast
next
  assume "main_addCustomer_insert n name w = Some w2"
  from main_addCustomer_insert_log[OF this]
  show "\<exists>st0 rest.
             log w2 = log w @ Prepare InsertCustomer st0 # rest
           \<and> (st0 \<noteq> SQLITE_OK \<longrightarrow>
               (\<exists>st1 ms2 v2 st2 ms3 v3 st3 ms4 v4 st4 i5 st5 i6 st6 ss.
                 rest = Cerr ''Error preparing INSERT statement:''
                   # Bind None 1 (SqlText name) st1
                   # reported (st1 \<noteq> SQLITE_OK) ''Error binding short name to statement:''
                   @ map Cerr ms2 @ Bind None 2 v2 st2
                   # reported (st2 \<noteq> SQLITE_OK)
                       (''Error binding '' @ ''Customer First Name'' @ '' to statement : '')
                   @ map Cerr ms3 @ Bind None 3 v3 st3
                   # reported (st3 \<noteq> SQLITE_OK)
                       (''Error binding '' @ ''Customer Surname'' @ '' to statement : '')
                   @ map Cerr ms4 @ Bind None 4 v4 st4
                   # reported (st4 \<noteq> SQLITE_OK)
                       (''Error binding '' @ ''Customer Group Name'' @ '' to statement : '')
                   @ Bind None 5 (SqlInt i5) st5
                   # reported (st5 \<noteq> SQLITE_OK) ''Error binding credit limit to statement:''
                   @ Bind None 6 (SqlInt i6) st6
                   # reported (st6 \<noteq> SQLITE_OK) ''Error binding outstanding balance to statement:''
                   @ Step None ss
                   # reported (ss \<noteq> SQLITE_DONE) ''Error executing statement:''
                   @ [Finalize None]))"
    apply (elim exE)
    subgoal for st0 st1 ms2 v2 st2 ms3 v3 st3 ms4 v4 st4 i5 st5 i6 st6 ss
      apply (rule exI[of _ st0])
      apply (rule exI)
      apply (rule conjI)
       apply assumption
      apply (rule impI)
      apply (rule exI[of _ st1], rule exI[of _ ms2], rule exI[of _ v2], rule exI[of _ st2],
             rule exI[of _ ms3], rule exI[of _ v3], rule exI[of _ st3],
             rule exI[of _ ms4], rule exI[of _ v4], rule exI[of _ st4],
             rule exI[of _ i5], rule exI[of _ st5], rule exI[of _ i6], rule exI[of _ st6],
             rule exI[of _ ss])
      apply (simp add: handle_of_def reported_def)
      done
    done
next
  assume h: "getAddressID n deleteShortName w = Some (addressID, w3)
        \<and> addressID \<noteq> - 2 \<and> addressID \<noteq> - 1
        \<and> getYesNo n
                    (cout (''This statement will delete address '' @ to_string addressID
                             @ '' from the database. Would you like to proceed? [y/n]'') w3)
             = Some (True, w4)
        \<and> fst (fst (sqlite3_prepare_v2 DeleteAddress w4)) \<noteq> SQLITE_OK"
  from main_removeAddress_prepare_failure[of n deleteShortName w addressID w3 w4] h
  show "\<exists>w' st. main_removeAddress n deleteShortName w = Some w'
              \<and> st \<noteq> SQLITE_OK
              \<and> calls w' = calls w4 @ [Prepare DeleteAddress st, Finalize None]"
    by blast
qed

text \<open>
  With a prepare that fails, Add Customer still makes its six bind calls and its step
  call; and Remove Address (single) makes the finalize call alone.
\<close>

theorem prepare_failure_not_skipped_counterexample:
  "map_option log (main_addCustomer_insert 2 ''TESTER''
      (sample_world ([newline] @ [newline] @ [newline] @ ''100'' @ [newline] @ ''0'' @ [newline]) [True]))
     = Some [Prepare InsertCustomer SQLITE_ERROR,
             Cerr ''Error preparing INSERT statement:'',
             Bind None 1 (SqlText ''TESTER'') SQLITE_MISUSE,
             Cerr ''Error binding short name to statement:'',
             Bind None 2 SqlNull SQLITE_MISUSE,
             Cerr ''Error binding Customer First Name to statement : '',
             Bind None 3 SqlNull SQLITE_MISUSE,
             Cerr ''Error binding Customer Surname to statement : '',
             Bind None 4 SqlNull SQLITE_MISUSE,
             Cerr ''Error binding Customer Group Name to statement : '',
             Bind None 5 (SqlInt 100) SQLITE_MISUSE,
             Cerr ''Error binding credit limit to statement:'',
             Bind None 6 (SqlInt 0) SQLITE_MISUSE,
             Cerr ''Error binding outstanding balance to statement:'',
             Step None SQLITE_MISUSE,
             Cerr ''Error executing statement:'',
             Finalize None]
   \<and> map_option log (main_removeAddress 5 ''JSMITH''
         (sample_world (''4'' @ [newline] @ ''y'' @ [newline])
            [False, False, False, False, False, False, False, False, False, False, False, True]))
     = Some [Prepare SelectCustomerID SQLITE_OK,
             Bind (Some SelectCustomerID) 1 (SqlText ''JSMITH'') SQLITE_OK,
             Step (Some SelectCustomerID) SQLITE_ROW,
             Finalize (Some SelectCustomerID),
             Prepare (SelectCountWhere ''*'' ''CustomerAddress'' ''Customer_ID'') SQLITE_OK,
             Bind (Some (SelectCountWhere ''*'' ''CustomerAddress'' ''Customer_ID'')) 1
                  (SqlText ''1'') SQLITE_OK,
             Step (Some (SelectCountWhere ''*'' ''CustomerAddress'' ''Customer_ID'')) SQLITE_ROW,
             Finalize (Some (SelectCountWhere ''*'' ''CustomerAddress'' ''Customer_ID'')),
             Prepare SelectAddresses SQLITE_OK,
             Bind (Some SelectAddresses) 1 (SqlInt 1) SQLITE_OK,
             Step (Some SelectAddresses) SQLITE_ROW,
             Step (Some SelectAddresses) SQLITE_ROW,
             Step (Some SelectAddresses) SQLITE_DONE,
             Finalize (Some SelectAddresses),
             Prepare DeleteAddress SQLITE_ERROR,
             Finalize None]"
  by code_simp

theorem prepare_failure_by_operation_witness:
  "(\<exists>st. st \<noteq> SQLITE_OK
       \<and> log (snd (selectCount ''*'' ''Customers'' (sample_world [] [True])))
         = [Prepare (SelectCount ''*'' ''Customers'') st,
            Cerr ''Error preparing SELECT COUNT statement: '',
            Finalize None])
   \<and> (\<exists>st. st \<noteq> SQLITE_OK
       \<and> log (snd (selectCount_where ''*'' ''Customers'' ''Customer_Short_Name'' ''JSMITH''
                      (sample_world [] [True])))
         = [Prepare (SelectCountWhere ''*'' ''Customers'' ''Customer_Short_Name'') st,
            Cerr ''Error preparing SELECT COUNT statement: '',
            Finalize None])
   \<and> (\<exists>w' restA stC restC.
         main_removeCustomer 2 1 ''JSMITH'' (sample_world (''y'' @ [newline]) [True]) = Some w'
       \<and> log w' = Prepare DeleteAddresses SQLITE_ERROR # restA @ Prepare DeleteCustomer stC # restC
       \<and> restA = [Cerr ''Error preparing delete statement: '', Finalize None])
   \<and> (\<exists>w2 rest ss.
         main_addCustomer_insert 2 ''TESTER''
           (sample_world ([newline] @ [newline] @ [newline] @ ''100'' @ [newline] @ ''0'' @ [newline]) [True]) = Some w2
       \<and> log w2 = Prepare InsertCustomer SQLITE_ERROR # rest
       \<and> Step None ss \<in> set rest)
   \<and> (\<exists>w' w4 st.
         main_removeAddress 5 ''JSMITH''
           (sample_world (''4'' @ [newline] @ ''y'' @ [newline])
            [False, False, False, False, False, False, False, False, False, False, False, True]) = Some w'
       \<and> st \<noteq> SQLITE_OK
       \<and> calls w' = calls w4 @ [Prepare DeleteAddress st, Finalize None])"
proof (intro conjI)
  have "fst (fst (sqlite3_prepare_v2 (SelectCount ''*'' ''Customers'') (sample_world [] [True])))
          \<noteq> SQLITE_OK"
    by code_simp
  moreover have "log (sample_world [] [True]) = []"
    by code_simp
  ultimately show "\<exists>st. st \<noteq> SQLITE_OK
       \<and> log (snd (selectCount ''*'' ''Customers'' (sample_world [] [True])))
         = [Prepare (SelectCount ''*'' ''Customers'') st,
            Cerr ''Error preparing SELECT COUNT statement: '',
            Finalize None]"
    using prepare_failure_by_operation
            [of "''*''" "''Customers''" "sample_world [] [True]", THEN conjunct1]
    by simp
next
  have "fst (fst (sqlite3_prepare_v2 (SelectCountWhere ''*'' ''Customers'' ''Customer_Short_Name'')
                    (sample_world [] [True]))) \<noteq> SQLITE_OK"
    by code_simp
  moreover have "log (sample_world [] [True]) = []"
    by code_simp
  ultimately show "\<exists>st. st \<noteq> SQLITE_OK
       \<and> log (snd (selectCount_where ''*'' ''Customers'' ''Customer_Short_Name'' ''JSMITH''
                      (sample_world [] [True])))
         = [Prepare (SelectCountWhere ''*'' ''Customers'' ''Customer_Short_Name'') st,
            Cerr ''Error preparing SELECT COUNT statement: '',
            Finalize None]"
    using prepare_failure_by_operation
            [of "''*''" "''Customers''" "sample_world [] [True]" "''Customer_Short_Name''" "''JSMITH''",
             THEN conjunct2, THEN conjunct1]
    by simp
next
  have "map_option fst
          (getYesNo 2
             (cout (''This command will delete all customer and address data associated with customer ''
                      @ ''JSMITH'') (sample_world (''y'' @ [newline]) [True]))) = Some True"
    by code_simp
  then obtain w1 where
    yes: "getYesNo 2
             (cout (''This command will delete all customer and address data associated with customer ''
                      @ ''JSMITH'') (sample_world (''y'' @ [newline]) [True])) = Some (True, w1)"
    by auto
  from prepare_failure_by_operation
         [THEN conjunct2, THEN conjunct2, THEN conjunct1, rule_format, OF yes, of 1]
  obtain w' stA restA stC restC where
    r: "main_removeCustomer 2 1 ''JSMITH'' (sample_world (''y'' @ [newline]) [True]) = Some w'"
    and l: "log w' = log (sample_world (''y'' @ [newline]) [True])
                       @ (Prepare DeleteAddresses stA # restA) @ (Prepare DeleteCustomer stC # restC)"
    and a: "stA \<noteq> SQLITE_OK \<longrightarrow>
                  restA = [Cerr ''Error preparing delete statement: '', Finalize None]"
    and c: "stC \<noteq> SQLITE_OK \<longrightarrow>
                  restC = [Cerr ''Error preparing DELETE statement: '', Finalize None]"
    by (elim exE conjE) (rule that, assumption+)
  have "map_option log (main_removeCustomer 2 1 ''JSMITH'' (sample_world (''y'' @ [newline]) [True]))
     = Some [Prepare DeleteAddresses SQLITE_ERROR,
             Cerr ''Error preparing delete statement: '',
             Finalize None,
             Prepare DeleteCustomer SQLITE_OK,
             Bind (Some DeleteCustomer) 1 (SqlInt 1) SQLITE_OK,
             Step (Some DeleteCustomer) SQLITE_DONE,
             Finalize (Some DeleteCustomer)]"
    by code_simp
  moreover have e: "log (sample_world (''y'' @ [newline]) [True]) = []"
    by code_simp
  ultimately have "Prepare DeleteAddresses stA # restA @ Prepare DeleteCustomer stC # restC
     = [Prepare DeleteAddresses SQLITE_ERROR,
             Cerr ''Error preparing delete statement: '',
             Finalize None,
             Prepare DeleteCustomer SQLITE_OK,
             Bind (Some DeleteCustomer) 1 (SqlInt 1) SQLITE_OK,
             Step (Some DeleteCustomer) SQLITE_DONE,
             Finalize (Some DeleteCustomer)]"
    using r l by simp
  then have s: "stA = SQLITE_ERROR"
    by simp
  with a have "restA = [Cerr ''Error preparing delete statement: '', Finalize None]"
    by simp
  with r l s e show "\<exists>w' restA stC restC.
         main_removeCustomer 2 1 ''JSMITH'' (sample_world (''y'' @ [newline]) [True]) = Some w'
       \<and> log w' = Prepare DeleteAddresses SQLITE_ERROR # restA @ Prepare DeleteCustomer stC # restC
       \<and> restA = [Cerr ''Error preparing delete statement: '', Finalize None]"
    by auto
next
  have v: "map_option log (main_addCustomer_insert 2 ''TESTER''
      (sample_world ([newline] @ [newline] @ [newline] @ ''100'' @ [newline] @ ''0'' @ [newline]) [True]))
     = Some [Prepare InsertCustomer SQLITE_ERROR,
             Cerr ''Error preparing INSERT statement:'',
             Bind None 1 (SqlText ''TESTER'') SQLITE_MISUSE,
             Cerr ''Error binding short name to statement:'',
             Bind None 2 SqlNull SQLITE_MISUSE,
             Cerr ''Error binding Customer First Name to statement : '',
             Bind None 3 SqlNull SQLITE_MISUSE,
             Cerr ''Error binding Customer Surname to statement : '',
             Bind None 4 SqlNull SQLITE_MISUSE,
             Cerr ''Error binding Customer Group Name to statement : '',
             Bind None 5 (SqlInt 100) SQLITE_MISUSE,
             Cerr ''Error binding credit limit to statement:'',
             Bind None 6 (SqlInt 0) SQLITE_MISUSE,
             Cerr ''Error binding outstanding balance to statement:'',
             Step None SQLITE_MISUSE,
             Cerr ''Error executing statement:'',
             Finalize None]"
    by code_simp
  then obtain w2 where
    r: "main_addCustomer_insert 2 ''TESTER''
          (sample_world ([newline] @ [newline] @ [newline] @ ''100'' @ [newline] @ ''0'' @ [newline]) [True]) = Some w2"
    by auto
  have e: "log (sample_world ([newline] @ [newline] @ [newline] @ ''100'' @ [newline] @ ''0'' @ [newline]) [True]) = []"
    by code_simp
  from prepare_failure_by_operation
         [THEN conjunct2, THEN conjunct2, THEN conjunct2, THEN conjunct1, rule_format, OF r]
  obtain st0 rest where
    l: "log w2 = log (sample_world ([newline] @ [newline] @ [newline] @ ''100'' @ [newline] @ ''0'' @ [newline]) [True]) @ Prepare InsertCustomer st0 # rest"
    and a: "st0 \<noteq> SQLITE_OK \<longrightarrow>
               (\<exists>st1 ms2 v2 st2 ms3 v3 st3 ms4 v4 st4 i5 st5 i6 st6 ss.
                 rest = Cerr ''Error preparing INSERT statement:''
                   # Bind None 1 (SqlText ''TESTER'') st1
                   # reported (st1 \<noteq> SQLITE_OK) ''Error binding short name to statement:''
                   @ map Cerr ms2 @ Bind None 2 v2 st2
                   # reported (st2 \<noteq> SQLITE_OK)
                       (''Error binding '' @ ''Customer First Name'' @ '' to statement : '')
                   @ map Cerr ms3 @ Bind None 3 v3 st3
                   # reported (st3 \<noteq> SQLITE_OK)
                       (''Error binding '' @ ''Customer Surname'' @ '' to statement : '')
                   @ map Cerr ms4 @ Bind None 4 v4 st4
                   # reported (st4 \<noteq> SQLITE_OK)
                       (''Error binding '' @ ''Customer Group Name'' @ '' to statement : '')
                   @ Bind None 5 (SqlInt i5) st5
                   # reported (st5 \<noteq> SQLITE_OK) ''Error binding credit limit to statement:''
                   @ Bind None 6 (SqlInt i6) st6
                   # reported (st6 \<noteq> SQLITE_OK) ''Error binding outstanding balance to statement:''
                   @ Step None ss
                   # reported (ss \<noteq> SQLITE_DONE) ''Error executing statement:''
                   @ [Finalize None])"
    by (elim exE conjE) (rule that, assumption+)
  from v r l e have s: "st0 = SQLITE_ERROR"
    by simp
  with a have "\<exists>ss. Step None ss \<in> set rest"
    by auto
  with r l s e show "\<exists>w2 rest ss.
         main_addCustomer_insert 2 ''TESTER''
           (sample_world ([newline] @ [newline] @ [newline] @ ''100'' @ [newline] @ ''0'' @ [newline]) [True]) = Some w2
       \<and> log w2 = Prepare InsertCustomer SQLITE_ERROR # rest
       \<and> Step None ss \<in> set rest"
    by auto
next
  have "map_option fst (getAddressID 5 ''JSMITH''
        (sample_world (''4'' @ [newline] @ ''y'' @ [newline])
            [False, False, False, False, False, False, False, False, False, False, False, True])) = Some 4"
    by code_simp
  then have g: "getAddressID 5 ''JSMITH''
        (sample_world (''4'' @ [newline] @ ''y'' @ [newline])
            [False, False, False, False, False, False, False, False, False, False, False, True])
      = Some (4, (snd (the (getAddressID 5 ''JSMITH''
        (sample_world (''4'' @ [newline] @ ''y'' @ [newline])
            [False, False, False, False, False, False, False, False, False, False, False, True])))))"
    by (cases "getAddressID 5 ''JSMITH''
        (sample_world (''4'' @ [newline] @ ''y'' @ [newline])
            [False, False, False, False, False, False, False, False, False, False, False, True])") auto
  have "map_option fst (getYesNo 5
      (cout (''This statement will delete address '' @ to_string 4
               @ '' from the database. Would you like to proceed? [y/n]'')
         (snd (the (getAddressID 5 ''JSMITH''
        (sample_world (''4'' @ [newline] @ ''y'' @ [newline])
            [False, False, False, False, False, False, False, False, False, False, False, True])))))) = Some True"
    by code_simp
  then have y: "getYesNo 5
      (cout (''This statement will delete address '' @ to_string 4
               @ '' from the database. Would you like to proceed? [y/n]'')
         (snd (the (getAddressID 5 ''JSMITH''
        (sample_world (''4'' @ [newline] @ ''y'' @ [newline])
            [False, False, False, False, False, False, False, False, False, False, False, True])))))
      = Some (True, (snd (the (getYesNo 5
      (cout (''This statement will delete address '' @ to_string 4
               @ '' from the database. Would you like to proceed? [y/n]'')
         (snd (the (getAddressID 5 ''JSMITH''
        (sample_world (''4'' @ [newline] @ ''y'' @ [newline])
            [False, False, False, False, False, False, False, False, False, False, False, True])))))))))"
    by (cases "getYesNo 5
      (cout (''This statement will delete address '' @ to_string 4
               @ '' from the database. Would you like to proceed? [y/n]'')
         (snd (the (getAddressID 5 ''JSMITH''
        (sample_world (''4'' @ [newline] @ ''y'' @ [newline])
            [False, False, False, False, False, False, False, False, False, False, False, True])))))") auto
  have p: "fst (fst (sqlite3_prepare_v2 DeleteAddress (snd (the (getYesNo 5
      (cout (''This statement will delete address '' @ to_string 4
               @ '' from the database. Would you like to proceed? [y/n]'')
         (snd (the (getAddressID 5 ''JSMITH''
        (sample_world (''4'' @ [newline] @ ''y'' @ [newline])
            [False, False, False, False, False, False, False, False, False, False, False, True])))))))))) \<noteq> SQLITE_OK"
    by code_simp
  from prepare_failure_by_operation
         [THEN conjunct2, THEN conjunct2, THEN conjunct2, THEN conjunct2, rule_format,
          of 5 "''JSMITH''" _ 4, OF conjI[OF g conjI[OF _ conjI[OF _ conjI[OF y p]]]]]
  show "\<exists>w' w4 st.
         main_removeAddress 5 ''JSMITH''
           (sample_world (''4'' @ [newline] @ ''y'' @ [newline])
            [False, False, False, False, False, False, False, False, False, False, False, True]) = Some w'
       \<and> st \<noteq> SQLITE_OK
       \<and> calls w' = calls w4 @ [Prepare DeleteAddress st, Finalize None]"
    by auto
qed

end
